theory Spec2Isabelle
  imports Complex_Main "HOL-Library.Word"
begin

section \<open>Data model of the .splib importer\<close>

text \<open>
  The development embeds \<^verbatim>\<open>SpectraSTSpLibImporter.cpp\<close>. C++ \<^verbatim>\<open>unsigned int\<close>
  values (replicate counts, statistics counters, \<^verbatim>\<open>m_count\<close>) are 32-bit words, so that
  \<open>+\<close> and \<open>-\<close> wrap as in the program. C++ \<^verbatim>\<open>double\<close> values (probabilities,
  precursor m/z, dot products) are read as the real numbers they denote; the program only
  compares them and adds constants to them. Pointers that may be \<^verbatim>\<open>NULL\<close> are options.
\<close>

type_synonym uint = "32 word"

datatype error = NullSearchLib | NullPeptide | OutOfRange

record peptide =
  stripped :: string
  pepCharge :: int
  pepMods :: "(nat \<times> string) list"

record peak =
  peakMz :: real
  peakIntensity :: real
  peakNreps :: uint

record entry =
  libId :: uint
  libFileOffset :: int
  peptidePtr :: "peptide option"
  charge :: int
  precursorMz :: real
  prob :: real
  nrepsUsed :: uint
  status :: string
  fragType :: string
  comments :: "string \<rightharpoonup> string"
  peakList :: "peak list"

text \<open>
  An opened input library: the lines its preamble contributes, its peptide index (peptide
  sequence, then subkey, then the entries filed under that peptide ion, in index order)
  and its mass index (the entries in the order \<^verbatim>\<open>nextEntry()\<close> delivers them).
\<close>

type_synonym pepIndex = "(string \<times> (string \<times> entry list) list) list"

record splib =
  splibPreamble :: "string list"
  pepidx :: pepIndex
  mzidx :: "entry list"

text \<open>
  The fields of \<^verbatim>\<open>SpectraSTCreateParams\<close> that the modelled functions read.
\<close>

record params =
  combineAction :: string
  buildAction :: string
  qualityLevelMark :: int
  qualityLevelRemove :: int
  qualityImmuneProbThreshold :: real
  qualityImmuneMultipleEngines :: bool
  qualityPenalizeSingletons :: bool
  minimumNumReplicates :: uint
  peakQuorum :: real
  refreshDatabase :: string
  refreshDeleteUnmapped :: bool
  refreshDeleteMultimapped :: bool
  unidentifiedClusterMinimumDot :: real
  unidentifiedSingletonXreaThreshold :: real
  allowableModTokens :: string

text \<open>
  The collaborators the importer calls but does not define (peak-list comparison, the
  peptide-homology comparator, string parsing of comments, the replicate reducer, the
  filters of the base class) are parameters of the model, collected in one record.
\<close>

record collab =
  baseFilters :: "entry \<Rightarrow> bool"
    \<comment> \<open>\<^verbatim>\<open>SpectraSTLibImporter::passAllFilters\<close>\<close>
  processEntry :: "entry \<Rightarrow> entry"
    \<comment> \<open>the effect of \<^verbatim>\<open>processEntry\<close> on an entry about to be inserted\<close>
  indexKey :: "entry \<Rightarrow> string \<times> string"
    \<comment> \<open>the (peptide, subkey) under which the output library indexes an inserted entry\<close>
  seNumEngines :: "string \<Rightarrow> uint"
    \<comment> \<open>\<^verbatim>\<open>atoi(nextToken(seqStr, 0, dummy, "^/", ""))\<close> on the \<^verbatim>\<open>Se\<close> comment\<close>
  parseFracUnassignedTop20 :: "string \<Rightarrow> real \<times> uint \<times> uint"
    \<comment> \<open>the top-20 fraction, unassigned count and total parsed from \<^verbatim>\<open>FracUnassigned\<close>\<close>
  calcFractionUnassignedTop20 :: "peptide \<Rightarrow> peak list \<Rightarrow> real \<times> uint \<times> uint"
    \<comment> \<open>\<^verbatim>\<open>calcFractionUnassigned(20, numUnassigned, numAssigned, true, true)\<close> on the
        peak list annotated for the peptide\<close>
  fracUnassignedComment :: "peptide \<Rightarrow> peak list \<Rightarrow> string"
    \<comment> \<open>the text cached in the \<^verbatim>\<open>FracUnassigned\<close> comment\<close>
  idxHasSharedSequence :: "pepIndex \<Rightarrow> peptide \<Rightarrow> string \<Rightarrow> bool"
    \<comment> \<open>\<^verbatim>\<open>SpectraSTPeptideLibIndex::hasSharedSequence\<close>\<close>
  compare :: "peak list \<Rightarrow> peak list \<Rightarrow> real"
    \<comment> \<open>\<^verbatim>\<open>SpectraSTPeakList::compare\<close>, the dot product\<close>
  simplify :: "peak list \<Rightarrow> peak list"
    \<comment> \<open>\<^verbatim>\<open>SpectraSTPeakList::simplify(50, 99999)\<close>\<close>
  isHomolog :: "peptide \<Rightarrow> peptide \<Rightarrow> real \<Rightarrow> bool"
    \<comment> \<open>\<^verbatim>\<open>Peptide::isHomolog(other, minIdentity, identity)\<close>\<close>
  descrStr :: "params \<Rightarrow> string list \<Rightarrow> string"
    \<comment> \<open>\<^verbatim>\<open>m_params.constructDescrStr(constructFileListStr(), ".splib")\<close>\<close>
  constructSubkey :: "entry \<Rightarrow> string"
    \<comment> \<open>\<^verbatim>\<open>SpectraSTPeptideLibIndex::constructSubkey\<close>\<close>
  findBestReplicate :: "entry list \<Rightarrow> entry option"
    \<comment> \<open>\<^verbatim>\<open>SpectraSTReplicates::findBestReplicate\<close>, \<open>None\<close> for \<^verbatim>\<open>NULL\<close>\<close>
  makeConsensusSpectrum :: "bool option \<Rightarrow> entry list \<Rightarrow> entry option"
    \<comment> \<open>\<^verbatim>\<open>SpectraSTReplicates::makeConsensusSpectrum\<close>, given the denoiser\<close>
  fastaRefresh :: "params \<Rightarrow> (string \<rightharpoonup> (string \<times> string) list option)
                    \<Rightarrow> (string \<rightharpoonup> (string \<times> string) list option)"
    \<comment> \<open>\<^verbatim>\<open>SpectraSTFastaFileHandler::refresh\<close> on the protein mappings\<close>
  homologLogLine :: "entry \<Rightarrow> entry \<Rightarrow> string"
    \<comment> \<open>the line logged when an entry is removed for a homolog\<close>
  sortEntriesByNreps :: "entry list \<Rightarrow> entry list"
    \<comment> \<open>the order of \<^verbatim>\<open>nextSortedEntry\<close> after \<^verbatim>\<open>sortEntriesByNreps\<close>\<close>
  sortEntriesBySN :: "entry list \<Rightarrow> entry list"
    \<comment> \<open>the order of \<^verbatim>\<open>nextSortedFileOffset\<close> after \<^verbatim>\<open>sortEntriesBySN\<close>\<close>
  xreaOf :: "entry \<Rightarrow> real"
    \<comment> \<open>the \<^verbatim>\<open>Xrea\<close> comment as a number, or \<^verbatim>\<open>calcXrea(true)\<close> without one\<close>
  xreaComment :: "entry \<Rightarrow> string"
    \<comment> \<open>the text stored in the \<^verbatim>\<open>Xrea\<close> comment\<close>

section \<open>Quality filter\<close>

subsection \<open>Statistics\<close>

record QFStats =
  immuneProb :: uint
  immuneEngine :: uint
  Q1 :: uint
  Q2 :: uint
  Q3 :: uint
  Q4 :: uint
  Q5 :: uint
  Q1Q2 :: uint
  Q1Q3 :: uint
  Q1Q4 :: uint
  Q1Q5 :: uint
  Q2Q3 :: uint
  Q2Q4 :: uint
  Q2Q5 :: uint
  Q3Q4 :: uint
  Q3Q5 :: uint
  Q4Q5 :: uint
  Q1Q2Q3 :: uint
  Q1Q2Q4 :: uint
  Q1Q2Q5 :: uint
  Q1Q3Q4 :: uint
  Q1Q3Q5 :: uint
  Q1Q4Q5 :: uint
  Q2Q3Q4 :: uint
  Q2Q3Q5 :: uint
  Q2Q4Q5 :: uint
  Q3Q4Q5 :: uint
  Q1Q2Q3Q4 :: uint
  Q1Q2Q3Q5 :: uint
  Q1Q2Q4Q5 :: uint
  Q1Q3Q4Q5 :: uint
  Q2Q3Q4Q5 :: uint
  Q1Q2Q3Q4Q5 :: uint


subsection \<open>The checks behind levels 1 to 3\<close>

text \<open>
  \<^verbatim>\<open>isImpure\<close>. The top-20 figures come from the cached comment when there is one
  (\<open>top20Unassigned\<close>, first branch) and are computed and then cached otherwise
  (\<open>cacheFracUnassigned\<close>). The subtraction \<open>numAssignedTop20 - 2\<close> is
  unsigned, as in the program. Peak annotations are not part of the peak record, so
  \<^verbatim>\<open>annotatePeaks\<close> leaves the modelled entry as it is.
\<close>

definition top20Unassigned :: "collab \<Rightarrow> entry \<Rightarrow> peptide \<Rightarrow> real \<times> uint \<times> uint" where
  "top20Unassigned c e pep =
     (case comments e ''FracUnassigned'' of
        Some s \<Rightarrow> (let (f, u, t) = parseFracUnassignedTop20 c s in (f, u, t - u))
      | None \<Rightarrow> calcFractionUnassignedTop20 c pep (peakList e))"

definition cacheFracUnassigned :: "collab \<Rightarrow> entry \<Rightarrow> peptide \<Rightarrow> entry" where
  "cacheFracUnassigned c e pep =
     (case comments e ''FracUnassigned'' of
        Some s \<Rightarrow> e
      | None \<Rightarrow>
          e\<lparr>comments := (comments e)(''FracUnassigned'' \<mapsto>
                            fracUnassignedComment c pep (peakList e))\<rparr>)"

definition isImpure :: "collab \<Rightarrow> entry \<Rightarrow> uint \<Rightarrow> bool \<Rightarrow> bool \<times> entry" where
  "isImpure c e numRepsUsed penalizeSingletons =
     (case peptidePtr e of
        None \<Rightarrow> (False, e)
      | Some pep \<Rightarrow>
          (case top20Unassigned c e pep of
             (fracUnassignedTop20, numUnassignedTop20, numAssignedTop20) \<Rightarrow>
               if charge e = 1 \<or>
                  ((\<not> penalizeSingletons \<or> numRepsUsed > 1) \<and> fracUnassignedTop20 < 0.4) \<or>
                  (penalizeSingletons \<and> numRepsUsed = 1 \<and>
                     (fracUnassignedTop20 < 0.4 \<and> numUnassignedTop20 < numAssignedTop20 - 2))
               then (False, cacheFracUnassigned c e pep)
               else (True, cacheFracUnassigned c e pep)))"

text \<open>
  \<^verbatim>\<open>hasSharedSequence\<close>. The reference library \<^verbatim>\<open>m_QFSearchLib\<close> is a pointer that is
  \<^verbatim>\<open>NULL\<close> until \<^verbatim>\<open>doQualityFilter\<close> constructs it; dereferencing it while \<^verbatim>\<open>NULL\<close> is
  the error \<open>NullSearchLib\<close>.
\<close>

definition hasSharedSequence :: "collab \<Rightarrow> splib option \<Rightarrow> entry \<Rightarrow> error + bool" where
  "hasSharedSequence c qfSearchLib e =
     (case peptidePtr e of
        None \<Rightarrow> Inr False
      | Some pep \<Rightarrow>
          (case qfSearchLib of
             None \<Rightarrow> Inl NullSearchLib
           | Some l \<Rightarrow> Inr (idxHasSharedSequence c (pepidx l) pep (fragType e))))"

text \<open>
  Modelled from the spec: range retrieval on the mass index (the class
  \<^verbatim>\<open>SpectraSTMzLibIndex\<close> is not part of the sources at hand). It delivers the entries
  whose precursor m/z lies in the closed window, in index order.
\<close>

definition mzRetrieve :: "entry list \<Rightarrow> real \<Rightarrow> real \<Rightarrow> entry list" where
  "mzRetrieve idx lowMz highMz =
     filter (\<lambda>e. lowMz \<le> precursorMz e \<and> precursorMz e \<le> highMz) idx"

text \<open>
  The loop of \<^verbatim>\<open>isBadConflictingID\<close> over the retrieved entries. A retrieved entry that
  is similar enough has its peptide pointer dereferenced without a check.
\<close>

fun conflictScan ::
  "collab \<Rightarrow> entry \<Rightarrow> peptide \<Rightarrow> uint \<Rightarrow> bool \<Rightarrow> entry list \<Rightarrow> error + bool" where
  "conflictScan c e pep numRepsUsed penalizeSingletons [] = Inr False"
| "conflictScan c e pep numRepsUsed penalizeSingletons (i # rest) =
     (if libId e \<noteq> libId i then
        let dot = compare c (peakList e) (peakList i) in
        if dot \<ge> 0.70 \<or> (penalizeSingletons \<and> numRepsUsed = 1 \<and> dot \<ge> 0.65) then
          let matchNumRepsUsed = nrepsUsed i; matchProb = prob i in
          (case peptidePtr i of
             None \<Rightarrow> Inl NullPeptide
           | Some ipep \<Rightarrow>
               if isHomolog c pep ipep 0.6 then
                 conflictScan c e pep numRepsUsed penalizeSingletons rest
               else if matchNumRepsUsed > numRepsUsed then Inr True
               else if matchNumRepsUsed = numRepsUsed \<and> matchProb > prob e then Inr True
               else conflictScan c e pep numRepsUsed penalizeSingletons rest)
        else conflictScan c e pep numRepsUsed penalizeSingletons rest
      else conflictScan c e pep numRepsUsed penalizeSingletons rest)"

definition isBadConflictingID ::
  "collab \<Rightarrow> splib option \<Rightarrow> entry \<Rightarrow> uint \<Rightarrow> bool \<Rightarrow> error + bool" where
  "isBadConflictingID c qfSearchLib e numRepsUsed penalizeSingletons =
     (case peptidePtr e of
        None \<Rightarrow> Inr False
      | Some pep \<Rightarrow>
          (case qfSearchLib of
             None \<Rightarrow> Inl NullSearchLib
           | Some l \<Rightarrow>
               conflictScan c e pep numRepsUsed penalizeSingletons
                 (mzRetrieve (mzidx l) (precursorMz e - 4.5) (precursorMz e + 4.5))))"


subsection \<open>The cascade\<close>

text \<open>
  The local variables of \<^verbatim>\<open>applyQualityFilter\<close>, together with the entry and the
  statistics it updates in place. Each block of the function is one definition below; a
  block either executes a \<^verbatim>\<open>return\<close> (\<open>Some b\<close>) or falls through to the next block
  (\<open>None\<close>). The free-text messages sent to the log are not represented.
\<close>

record qfctx =
  qEntry :: entry
  qStats :: QFStats
  inquorate :: bool
  singleton :: bool
  unconfirmed :: bool
  badConflictingID :: bool

type_synonym qfstep = "error + (bool option \<times> qfctx)"

definition andThen :: "qfstep \<Rightarrow> (qfctx \<Rightarrow> qfstep) \<Rightarrow> qfstep" where
  "andThen r f =
     (case r of
        Inl err \<Rightarrow> Inl err
      | Inr (Some b, x) \<Rightarrow> Inr (Some b, x)
      | Inr (None, x) \<Rightarrow> f x)"

definition immuneByProb :: "params \<Rightarrow> entry \<Rightarrow> bool" where
  "immuneByProb p e = (prob e \<ge> qualityImmuneProbThreshold p)"

definition immuneByEngines :: "collab \<Rightarrow> params \<Rightarrow> entry \<Rightarrow> bool" where
  "immuneByEngines c p e =
     (qualityImmuneMultipleEngines p \<and>
      (case comments e ''Se'' of
         None \<Rightarrow> False
       | Some seqStr \<Rightarrow> seNumEngines c seqStr > 1))"

text \<open>
  Two shorthands for the statements the blocks are made of: \<open>incr\<close> is \<^verbatim>\<open>++\<close> on a
  counter, applied to a field with the field's update function, and \<open>doIf b f\<close> is
  \<^verbatim>\<open>if (b) f;\<close>. In \<open>g \<circ> f\<close> the increment \<open>f\<close> is the first of the two.
\<close>

definition incr :: "uint \<Rightarrow> uint" where
  "incr v = v + 1"

definition doIf :: "bool \<Rightarrow> ('a \<Rightarrow> 'a) \<Rightarrow> 'a \<Rightarrow> 'a" where
  "doIf b f s = (if b then f s else s)"

definition setStatus :: "string \<Rightarrow> qfctx \<Rightarrow> qfctx" where
  "setStatus label x = qEntry_update (status_update (\<lambda>_. label)) x"

definition checkImmune :: "collab \<Rightarrow> params \<Rightarrow> qfctx \<Rightarrow> qfstep" where
  "checkImmune c p x =
     (if immuneByProb p (qEntry x) then
        Inr (Some True, qStats_update (immuneProb_update incr) x)
      else if immuneByEngines c p (qEntry x) then
        Inr (Some True, qStats_update (immuneEngine_update incr) x)
      else Inr (None, x))"

definition repQuorum :: "params \<Rightarrow> uint" where
  "repQuorum p = (if minimumNumReplicates p < 2 then 2 else minimumNumReplicates p)"

definition checkLevel5 :: "params \<Rightarrow> uint \<Rightarrow> qfctx \<Rightarrow> qfstep" where
  "checkLevel5 p numRepsUsed x0 =
     (let x = x0\<lparr>inquorate := numRepsUsed < repQuorum p\<rparr> in
      if qualityLevelRemove p \<ge> 5 \<or> qualityLevelMark p \<ge> 5 then
        if inquorate x then
          let x = qStats_update (Q5_update incr) x in
          if qualityLevelRemove p \<ge> 5 then Inr (Some False, x)
          else if qualityLevelMark p \<ge> 5 then Inr (None, setStatus ''Inquorate'' x)
          else Inr (None, x)
        else Inr (None, x)
      else Inr (None, x))"

definition checkLevel4 :: "params \<Rightarrow> uint \<Rightarrow> qfctx \<Rightarrow> qfstep" where
  "checkLevel4 p numRepsUsed x0 =
     (if inquorate x0 \<and> (qualityLevelRemove p \<ge> 4 \<or> qualityLevelMark p \<ge> 4) then
        if numRepsUsed = 1 then
          let x = x0\<lparr>singleton := True\<rparr>;
              x = qStats_update (Q4_update incr) x;
              x = qStats_update (Q4Q5_update incr) x in
          if qualityLevelRemove p \<ge> 4 then Inr (Some False, x)
          else if qualityLevelMark p \<ge> 4 then Inr (None, setStatus ''Singleton'' x)
          else Inr (None, x)
        else Inr (None, x0)
      else Inr (None, x0))"

definition checkLevel3 :: "collab \<Rightarrow> params \<Rightarrow> splib option \<Rightarrow> qfctx \<Rightarrow> qfstep" where
  "checkLevel3 c p qfSearchLib x0 =
     (if inquorate x0 \<and> (qualityLevelRemove p \<ge> 3 \<or> qualityLevelMark p \<ge> 3) then
        (case hasSharedSequence c qfSearchLib (qEntry x0) of
           Inl err \<Rightarrow> Inl err
         | Inr True \<Rightarrow> Inr (None, x0)
         | Inr False \<Rightarrow>
             let x = x0\<lparr>unconfirmed := True\<rparr>;
                 x = qStats_update (Q3_update incr) x;
                 x = qStats_update (Q3Q5_update incr) x;
                 x = doIf (singleton x0)
                       (qStats_update (Q3Q4Q5_update incr \<circ> Q3Q4_update incr)) x in
             if qualityLevelRemove p \<ge> 3 then Inr (Some False, x)
             else if qualityLevelMark p \<ge> 3 then
               Inr (None, setStatus ''Inquorate_Unconfirmed'' x)
             else Inr (None, x))
      else Inr (None, x0))"

definition checkLevel2 :: "collab \<Rightarrow> params \<Rightarrow> splib option \<Rightarrow> uint \<Rightarrow> qfctx \<Rightarrow> qfstep" where
  "checkLevel2 c p qfSearchLib numRepsUsed x0 =
     (if qualityLevelRemove p \<ge> 2 \<or> qualityLevelMark p \<ge> 2 then
        (case isBadConflictingID c qfSearchLib (qEntry x0) numRepsUsed
                (qualityPenalizeSingletons p) of
           Inl err \<Rightarrow> Inl err
         | Inr False \<Rightarrow> Inr (None, x0)
         | Inr True \<Rightarrow>
             let x = x0\<lparr>badConflictingID := True\<rparr>;
                 x = qStats_update (Q2_update incr) x;
                 x = doIf (inquorate x0) (qStats_update (Q2Q5_update incr)) x;
                 x = doIf (singleton x0)
                       (qStats_update (Q2Q4Q5_update incr \<circ> Q2Q4_update incr)) x;
                 x = doIf (unconfirmed x0)
                       (qStats_update (Q2Q3Q5_update incr \<circ> Q2Q3_update incr)) x;
                 x = doIf (singleton x0 \<and> unconfirmed x0)
                       (qStats_update (Q2Q3Q4Q5_update incr \<circ> Q2Q3Q4_update incr)) x in
             if qualityLevelRemove p \<ge> 2 then Inr (Some False, x)
             else if qualityLevelMark p \<ge> 2 then Inr (None, setStatus ''Conflicting_ID'' x)
             else Inr (None, x))
      else Inr (None, x0))"

definition checkLevel1 :: "collab \<Rightarrow> params \<Rightarrow> uint \<Rightarrow> qfctx \<Rightarrow> qfstep" where
  "checkLevel1 c p numRepsUsed x0 =
     (if qualityLevelRemove p \<ge> 1 \<or> qualityLevelMark p \<ge> 1 then
        (case isImpure c (qEntry x0) numRepsUsed (qualityPenalizeSingletons p) of
           (False, e') \<Rightarrow> Inr (None, x0\<lparr>qEntry := e'\<rparr>)
         | (True, e') \<Rightarrow>
             let x = x0\<lparr>qEntry := e'\<rparr>;
                 x = qStats_update (Q1_update incr) x;
                 x = doIf (inquorate x0) (qStats_update (Q1Q5_update incr)) x;
                 x = doIf (singleton x0)
                       (qStats_update (Q1Q4Q5_update incr \<circ> Q1Q4_update incr)) x;
                 x = doIf (unconfirmed x0)
                       (qStats_update (Q1Q3Q5_update incr \<circ> Q1Q3_update incr)) x;
                 x = doIf (singleton x0 \<and> unconfirmed x0)
                       (qStats_update (Q1Q3Q4Q5_update incr \<circ> Q1Q3Q4_update incr)) x;
                 x = doIf (badConflictingID x0) (qStats_update (Q1Q2_update incr)) x;
                 x = doIf (badConflictingID x0 \<and> inquorate x0)
                       (qStats_update (Q1Q2Q5_update incr)) x;
                 x = doIf (badConflictingID x0 \<and> singleton x0)
                       (qStats_update (Q1Q2Q4Q5_update incr \<circ> Q1Q2Q4_update incr)) x;
                 x = doIf (badConflictingID x0 \<and> unconfirmed x0)
                       (qStats_update (Q1Q2Q3Q5_update incr \<circ> Q1Q2Q3_update incr)) x;
                 x = doIf (badConflictingID x0 \<and> singleton x0 \<and> unconfirmed x0)
                       (qStats_update (Q1Q2Q3Q4Q5_update incr \<circ> Q1Q2Q3Q4_update incr)) x in
             if qualityLevelRemove p \<ge> 1 then Inr (Some False, x)
             else if qualityLevelMark p \<ge> 1 then Inr (None, setStatus ''Impure'' x)
             else Inr (None, x))
      else Inr (None, x0))"

text \<open>
  Modelled from the spec: \<^verbatim>\<open>SpectraSTPeakList::removeInquoratePeaks\<close> (the peak-list
  class is not part of the sources at hand) prunes the peaks seen in fewer than the given
  number of replicates.
\<close>

definition removeInquoratePeaks :: "uint \<Rightarrow> peak list \<Rightarrow> peak list" where
  "removeInquoratePeaks minNumRepWithPeak pl =
     filter (\<lambda>pk. \<not> peakNreps pk < minNumRepWithPeak) pl"

text \<open>
  The conversion \<^verbatim>\<open>(unsigned int)(double)\<close> truncates towards zero. The model gives the
  program's value for every argument above \<open>-1\<close> and below \<open>2 ^ 32\<close>, which holds for
  every peak quorum between 0 and 1; outside that range C++ leaves the conversion undefined.
\<close>

definition toUInt :: "real \<Rightarrow> uint" where
  "toUInt x = word_of_nat (nat \<lfloor>x\<rfloor>)"

definition minNumRepWithPeak :: "params \<Rightarrow> uint \<Rightarrow> uint" where
  "minNumRepWithPeak p numRepsUsed =
     (let m = toUInt (real (unat numRepsUsed) * peakQuorum p - 0.00001) + 1
      in if m < 1 then 1 else m)"

definition enforcePeakQuorum :: "params \<Rightarrow> uint \<Rightarrow> qfctx \<Rightarrow> qfstep" where
  "enforcePeakQuorum p numRepsUsed x =
     Inr (Some True,
          qEntry_update
            (peakList_update (removeInquoratePeaks (minNumRepWithPeak p numRepsUsed))) x)"

text \<open>
  \<^verbatim>\<open>applyQualityFilter\<close>: the returned boolean, the entry and the statistics as the call
  leaves them, and the incremented \<^verbatim>\<open>m_count\<close>.
\<close>

definition applyQualityFilter ::
  "collab \<Rightarrow> params \<Rightarrow> splib option \<Rightarrow> entry \<Rightarrow> QFStats \<Rightarrow> uint
     \<Rightarrow> error + (bool \<times> entry \<times> QFStats \<times> uint)" where
  "applyQualityFilter c p qfSearchLib entry qfstats count =
     (let x0 = \<lparr>qEntry = entry\<lparr>status := ''Normal''\<rparr>, qStats = qfstats,
                inquorate = False, singleton = False, unconfirmed = False,
                badConflictingID = False\<rparr>;
          count' = count + 1;
          numRepsUsed = nrepsUsed entry
      in case andThen (andThen (andThen (andThen (andThen (andThen
                (checkImmune c p x0)
                (checkLevel5 p numRepsUsed))
                (checkLevel4 p numRepsUsed))
                (checkLevel3 c p qfSearchLib))
                (checkLevel2 c p qfSearchLib numRepsUsed))
                (checkLevel1 c p numRepsUsed))
                (enforcePeakQuorum p numRepsUsed) of
           Inl err \<Rightarrow> Inl err
         | Inr (r, x) \<Rightarrow>
             Inr (case r of Some b \<Rightarrow> b | None \<Rightarrow> True, qEntry x, qStats x, count'))"


section \<open>The importer\<close>

text \<open>
  The state of one importer instance, with the two things it writes to: the output library
  \<^verbatim>\<open>m_lib\<close> (the preamble handed to \<^verbatim>\<open>writePreamble\<close>, if it was called, and the
  entries handed to \<^verbatim>\<open>insertEntry\<close>, in order) and the log \<^verbatim>\<open>g_log\<close>.
\<close>

datatype logmsg =
    LogError string string
  | LogMsg string string
  | LogStats string "uint list"

type_synonym ppMappings = "string \<rightharpoonup> (string \<times> string) list option"

record importer =
  m_preamble :: "string list"
  m_splibFins :: "splib option list"
  m_pepIndices :: "pepIndex option list"
  m_mzIndices :: "entry list option list"
  m_QFSearchLib :: "splib option"
  m_ppMappings :: "ppMappings option"
  m_count :: uint
  m_denoiser :: "bool option"
  m_singletonPeptideIons :: "(string \<times> string) list"
  libPreamble :: "string list option"
  libEntries :: "entry list"
  g_log :: "logmsg list"

text \<open>
  The constructor. \<open>denoiser\<close> is \<open>None\<close> without a Bayesian denoiser, and otherwise
  tells whether its filter is ready (it is when the defaults are used).
\<close>

definition newImporter :: "bool option \<Rightarrow> importer" where
  "newImporter denoiser =
     \<lparr>m_preamble = [], m_splibFins = [], m_pepIndices = [], m_mzIndices = [],
      m_QFSearchLib = None, m_ppMappings = None, m_count = 0, m_denoiser = denoiser,
      m_singletonPeptideIons = [], libPreamble = None, libEntries = [], g_log = []\<rparr>"

definition logError :: "string \<Rightarrow> string \<Rightarrow> importer \<Rightarrow> importer" where
  "logError tag msg st = st\<lparr>g_log := g_log st @ [LogError tag msg]\<rparr>"

definition writePreamble :: "importer \<Rightarrow> importer" where
  "writePreamble st = st\<lparr>libPreamble := Some (m_preamble st)\<rparr>"

definition insertEntry :: "entry \<Rightarrow> importer \<Rightarrow> importer" where
  "insertEntry e st = st\<lparr>libEntries := libEntries st @ [e]\<rparr>"

definition addSequencesForRefresh :: "string list \<Rightarrow> importer \<Rightarrow> importer" where
  "addSequencesForRefresh seqs st =
     (let pp = (case m_ppMappings st of None \<Rightarrow> Map.empty | Some m \<Rightarrow> m)
      in st\<lparr>m_ppMappings := Some (foldl (\<lambda>m seq. m(seq \<mapsto> None)) pp seqs)\<rparr>)"

definition passAllFilters :: "collab \<Rightarrow> params \<Rightarrow> importer \<Rightarrow> entry \<Rightarrow> bool" where
  "passAllFilters c p st e =
     (case m_ppMappings st of
        None \<Rightarrow> baseFilters c e
      | Some pp \<Rightarrow>
          (case peptidePtr e of
             None \<Rightarrow> baseFilters c e
           | Some pep \<Rightarrow>
               if baseFilters c e then
                 (case pp (stripped pep) of
                    None \<Rightarrow> False
                  | Some found \<Rightarrow>
                      if refreshDeleteUnmapped p \<and> found = None then False
                      else if refreshDeleteMultimapped p \<and> found \<noteq> None
                              \<and> length (the found) \<noteq> 1 then False
                      else True)
               else False))"

subsection \<open>Opening the input libraries\<close>

text \<open>
  Modelled from the spec: the uniqueness check and the key enumeration of the peptide index
  (the class \<^verbatim>\<open>SpectraSTPeptideLibIndex\<close> is not part of the sources at hand). A library
  is unique when every peptide ion resolves to exactly one entry.
\<close>

definition isUniqueLibrary :: "pepIndex \<Rightarrow> bool" where
  "isUniqueLibrary idx =
     list_all (\<lambda>(pep, subkeys). list_all (\<lambda>(k, es). length es = 1) subkeys) idx"

definition getAllSequences :: "pepIndex \<Rightarrow> string list" where
  "getAllSequences idx = map fst idx"

text \<open>
  One round of the loop of \<^verbatim>\<open>openSplibs\<close>. An input file is its name together with the
  library it holds, or \<open>None\<close> when it cannot be opened.
\<close>

definition openOneSplib ::
  "params \<Rightarrow> bool \<Rightarrow> bool \<Rightarrow> bool \<Rightarrow> bool \<Rightarrow> importer \<Rightarrow> string \<times> splib option
     \<Rightarrow> importer" where
  "openOneSplib p openMzIndex openPepIndex checkUniqueness refresh st f =
     (case snd f of
        None \<Rightarrow>
          (logError ''CREATE'' (''Cannot open SPLIB file '' @ fst f @ '' for reading. File skipped.'') st)
            \<lparr>m_splibFins := m_splibFins st @ [None],
             m_pepIndices := m_pepIndices st @ [None],
             m_mzIndices := m_mzIndices st @ [None]\<rparr>
      | Some lib \<Rightarrow>
          let st1 = st\<lparr>m_splibFins := m_splibFins st @ [Some lib]\<rparr>;
              st2 =
                (if openPepIndex \<or> checkUniqueness \<or> (refresh \<and> refreshDatabase p \<noteq> []) then
                   if checkUniqueness \<and> \<not> isUniqueLibrary (pepidx lib) then
                     st1\<lparr>m_pepIndices := m_pepIndices st1 @ [None]\<rparr>
                   else
                     let st' = st1\<lparr>m_pepIndices := m_pepIndices st1 @ [Some (pepidx lib)]\<rparr>
                     in if refresh \<and> refreshDatabase p \<noteq> []
                        then addSequencesForRefresh (getAllSequences (pepidx lib)) st'
                        else st'
                 else st1\<lparr>m_pepIndices := m_pepIndices st1 @ [None]\<rparr>);
              st3 = st2\<lparr>m_mzIndices :=
                      m_mzIndices st2 @ [if openMzIndex then Some (mzidx lib) else None]\<rparr>
          in st3\<lparr>m_preamble := m_preamble st3 @ splibPreamble lib\<rparr>)"

definition openSplibs ::
  "params \<Rightarrow> bool \<Rightarrow> bool \<Rightarrow> bool \<Rightarrow> bool \<Rightarrow> (string \<times> splib option) list \<Rightarrow> importer
     \<Rightarrow> importer" where
  "openSplibs p openMzIndex openPepIndex checkUniqueness refresh files st =
     (if m_splibFins st \<noteq> [] then st
      else foldl (openOneSplib p openMzIndex openPepIndex checkUniqueness refresh) st files)"

subsection \<open>The quality-filter run\<close>

definition zeroStats :: QFStats where
  "zeroStats =
     \<lparr>immuneProb = 0, immuneEngine = 0, Q1 = 0, Q2 = 0, Q3 = 0, Q4 = 0, Q5 = 0,
      Q1Q2 = 0, Q1Q3 = 0, Q1Q4 = 0, Q1Q5 = 0, Q2Q3 = 0, Q2Q4 = 0, Q2Q5 = 0, Q3Q4 = 0,
      Q3Q5 = 0, Q4Q5 = 0, Q1Q2Q3 = 0, Q1Q2Q4 = 0, Q1Q2Q5 = 0, Q1Q3Q4 = 0, Q1Q3Q5 = 0,
      Q1Q4Q5 = 0, Q2Q3Q4 = 0, Q2Q3Q5 = 0, Q2Q4Q5 = 0, Q3Q4Q5 = 0, Q1Q2Q3Q4 = 0,
      Q1Q2Q3Q5 = 0, Q1Q2Q4Q5 = 0, Q1Q3Q4Q5 = 0, Q2Q3Q4Q5 = 0, Q1Q2Q3Q4Q5 = 0\<rparr>"

text \<open>The numbers of spectra remaining at each quality level, as the run reports them.\<close>

definition level1 :: "uint \<Rightarrow> QFStats \<Rightarrow> uint" where
  "level1 count s = count - Q1 s"

definition level2 :: "uint \<Rightarrow> QFStats \<Rightarrow> uint" where
  "level2 count s = level1 count s - Q2 s + Q1Q2 s"

definition level3 :: "uint \<Rightarrow> QFStats \<Rightarrow> uint" where
  "level3 count s = level2 count s - Q3 s + Q1Q3 s + Q2Q3 s - Q1Q2Q3 s"

definition level4 :: "uint \<Rightarrow> QFStats \<Rightarrow> uint" where
  "level4 count s =
     level3 count s - Q4 s + Q1Q4 s + Q2Q4 s + Q3Q4 s - Q1Q2Q4 s - Q1Q3Q4 s - Q2Q3Q4 s
       + Q1Q2Q3Q4 s"

definition level5 :: "uint \<Rightarrow> QFStats \<Rightarrow> uint" where
  "level5 count s =
     level4 count s - Q5 s + Q1Q5 s + Q2Q5 s + Q3Q5 s + Q4Q5 s - Q1Q2Q5 s - Q1Q3Q5 s
       - Q1Q4Q5 s - Q2Q3Q5 s - Q2Q4Q5 s - Q3Q4Q5 s + Q1Q2Q3Q5 s + Q1Q2Q4Q5 s + Q1Q3Q4Q5 s
       + Q2Q3Q4Q5 s - Q1Q2Q3Q4Q5 s"

text \<open>The loop of \<^verbatim>\<open>doQualityFilter\<close> over the mass index.\<close>

fun qualityFilterLoop ::
  "collab \<Rightarrow> params \<Rightarrow> entry list \<Rightarrow> QFStats \<Rightarrow> importer \<Rightarrow> error + (QFStats \<times> importer)" where
  "qualityFilterLoop c p [] qfstats st = Inr (qfstats, st)"
| "qualityFilterLoop c p (entry # rest) qfstats st =
     (if passAllFilters c p st entry then
        (case applyQualityFilter c p (m_QFSearchLib st) entry qfstats (m_count st) of
           Inl err \<Rightarrow> Inl err
         | Inr (ok, entry', qfstats', count') \<Rightarrow>
             if ok then
               qualityFilterLoop c p rest qfstats'
                 (insertEntry (processEntry c entry') (st\<lparr>m_count := count'\<rparr>))
             else qualityFilterLoop c p rest qfstats' (st\<lparr>m_count := count'\<rparr>))
      else qualityFilterLoop c p rest qfstats st)"

text \<open>
  The reference library is a second object opened on the same file by name; \<^verbatim>\<open>new\<close>
  yields an object whatever the file holds.
\<close>

definition openSearchLib :: "(string \<times> splib option) \<Rightarrow> splib" where
  "openSearchLib f =
     (case snd f of
        Some lib \<Rightarrow> lib
      | None \<Rightarrow> \<lparr>splibPreamble = [], pepidx = [], mzidx = []\<rparr>)"

definition doQualityFilter ::
  "collab \<Rightarrow> params \<Rightarrow> (string \<times> splib option) list \<Rightarrow> importer \<Rightarrow> error + importer" where
  "doQualityFilter c p files st0 =
     (if length files \<noteq> 1 then
        Inr (logError ''QUALITY FILTER''
               ''Quality filter must be applied to one .splib file only. No filtering performed.'' st0)
      else
        let desc = descrStr c p (map fst files);
            st1 = st0\<lparr>m_preamble := m_preamble st0 @ [desc],
                      g_log := g_log st0 @ [LogMsg ''CREATE'' desc]\<rparr>;
            st2 = openSplibs p True True True True files st1
        in case (m_splibFins st2, m_pepIndices st2, m_mzIndices st2) of
             (splibFin # _, pepIndex # _, mzIndex # _) \<Rightarrow>
               if splibFin \<noteq> None \<and> pepIndex = None then
                 Inr (logError ''QUALITY_FILTER''
                        (''Quality filter requires unique library. Library '' @ fst (hd files)
                           @ '' is non-unique. No filtering is performed.'') st2)
               else
                 (case mzIndex of
                    None \<Rightarrow> Inr st2
                  | Some mz \<Rightarrow>
                      let st3 = writePreamble st2;
                          st4 = (if qualityLevelMark p \<ge> 2 \<or> qualityLevelRemove p \<ge> 2
                                 then st3\<lparr>m_QFSearchLib := Some (openSearchLib (hd files))\<rparr>
                                 else st3)
                      in (case qualityFilterLoop c p mz zeroStats st4 of
                           Inl err \<Rightarrow> Inl err
                         | Inr (qfstats, st5) \<Rightarrow>
                             if qualityLevelMark p \<ge> 5 \<and> qualityLevelRemove p = 0 then
                               Inr (st5\<lparr>g_log := g_log st5 @
                                     [LogStats ''QUALITY_FILTER STATS''
                                        [immuneProb qfstats, immuneEngine qfstats],
                                      LogStats ''QUALITY_FILTER STATS''
                                        [m_count st5,
                                         level1 (m_count st5) qfstats,
                                         level2 (m_count st5) qfstats,
                                         level3 (m_count st5) qfstats,
                                         level4 (m_count st5) qfstats,
                                         level5 (m_count st5) qfstats]]\<rparr>)
                             else Inr st5))
           | _ \<Rightarrow> Inl OutOfRange)"


section \<open>Combining libraries\<close>

subsection \<open>The peptide index\<close>

text \<open>
  Modelled from the spec: the lookups of the peptide index (the class
  \<^verbatim>\<open>SpectraSTPeptideLibIndex\<close> is not part of the sources at hand). The index maps a
  peptide sequence to its subkeys and each subkey to the entries of that peptide ion;
  \<^verbatim>\<open>retrieve\<close> appends those entries to the vector it is given.
\<close>

definition isInIndex :: "pepIndex \<Rightarrow> string \<Rightarrow> string \<Rightarrow> bool" where
  "isInIndex idx peptide subkey =
     (case map_of idx peptide of
        None \<Rightarrow> False
      | Some subkeys \<Rightarrow> map_of subkeys subkey \<noteq> None)"

definition idxRetrieve :: "pepIndex \<Rightarrow> string \<Rightarrow> string \<Rightarrow> entry list" where
  "idxRetrieve idx peptide subkey =
     (case map_of idx peptide of
        None \<Rightarrow> []
      | Some subkeys \<Rightarrow> (case map_of subkeys subkey of None \<Rightarrow> [] | Some es \<Rightarrow> es))"

text \<open>
  Modelled from the spec: the peptide index of the output library holds the peptide ions
  of the entries inserted so far.
\<close>

definition libIsInIndex :: "collab \<Rightarrow> importer \<Rightarrow> string \<Rightarrow> string \<Rightarrow> bool" where
  "libIsInIndex c st peptide subkey =
     ((peptide, subkey) \<in> set (map (indexKey c) (libEntries st)))"

subsection \<open>The build actions\<close>

definition insertIfPassing :: "collab \<Rightarrow> params \<Rightarrow> importer \<Rightarrow> entry \<Rightarrow> importer" where
  "insertIfPassing c p st e =
     (if passAllFilters c p st e then insertEntry (processEntry c e) st else st)"

definition doBuildAction ::
  "collab \<Rightarrow> params \<Rightarrow> entry list \<Rightarrow> importer \<Rightarrow> error + importer" where
  "doBuildAction c p entries st =
     (if buildAction p = ''BEST_REPLICATE'' then
        (case findBestReplicate c entries of
           None \<Rightarrow> Inr st
         | Some best \<Rightarrow> Inr (insertIfPassing c p st best))
      else if buildAction p = ''CONSENSUS'' then
        (case makeConsensusSpectrum c (m_denoiser st) entries of
           None \<Rightarrow> Inr st
         | Some consensus \<Rightarrow>
             if passAllFilters c p st consensus then
               if m_denoiser st = Some False \<and> nrepsUsed consensus = 1 then
                 (case peptidePtr consensus of
                    None \<Rightarrow> Inl NullPeptide
                  | Some pep \<Rightarrow>
                      Inr (st\<lparr>m_singletonPeptideIons := m_singletonPeptideIons st @
                                [(stripped pep, constructSubkey c consensus)]\<rparr>))
               else Inr (insertEntry (processEntry c consensus) st)
             else Inr st)
      else Inr (foldl (insertIfPassing c p) st entries))"

subsection \<open>Selecting and retrieving a peptide ion\<close>

text \<open>
  The decision \<^verbatim>\<open>include\<close> for the peptide ion \<open>(peptide, k)\<close> met while the index of
  file number \<open>curPepIndex\<close> is read. Indices of files that could not be opened are
  \<^verbatim>\<open>NULL\<close> and are passed over.
\<close>

definition includeIon ::
  "collab \<Rightarrow> params \<Rightarrow> importer \<Rightarrow> nat \<Rightarrow> string \<Rightarrow> string \<Rightarrow> bool" where
  "includeIon c p st curPepIndex peptide k =
     (if combineAction p = ''UNION'' \<or> combineAction p = ''APPEND'' then
        \<not> (curPepIndex \<noteq> 0 \<and> libIsInIndex c st peptide k)
      else if combineAction p = ''INTERSECT'' then
        list_all (\<lambda>i. case i of None \<Rightarrow> True | Some idx \<Rightarrow> isInIndex idx peptide k)
          (tl (m_pepIndices st))
      else if combineAction p = ''SUBTRACT'' then
        list_all (\<lambda>i. case i of None \<Rightarrow> True | Some idx \<Rightarrow> \<not> isInIndex idx peptide k)
          (tl (m_pepIndices st))
      else True)"

text \<open>The loop that collects the entries of an included peptide ion from the files.\<close>

fun retrieveFrom ::
  "params \<Rightarrow> pepIndex option list \<Rightarrow> string \<Rightarrow> string \<Rightarrow> entry list \<Rightarrow> entry list" where
  "retrieveFrom p [] peptide k entries = entries"
| "retrieveFrom p (i # rest) peptide k entries =
     (let entries' = (case i of None \<Rightarrow> entries
                      | Some idx \<Rightarrow> entries @ idxRetrieve idx peptide k)
      in if i \<noteq> None \<and> combineAction p = ''APPEND'' \<and> entries' \<noteq> [] then entries'
         else if combineAction p = ''SUBTRACT'' then entries'
         else retrieveFrom p rest peptide k entries')"

subsection \<open>The passes over the files\<close>

fun importSubkeys ::
  "collab \<Rightarrow> params \<Rightarrow> nat \<Rightarrow> string \<Rightarrow> string list \<Rightarrow> importer \<Rightarrow> error + importer" where
  "importSubkeys c p curPepIndex peptide [] st = Inr st"
| "importSubkeys c p curPepIndex peptide (k # ks) st =
     (if includeIon c p st curPepIndex peptide k then
        (case doBuildAction c p (retrieveFrom p (m_pepIndices st) peptide k [])
                (st\<lparr>m_count := m_count st + 1\<rparr>) of
           Inl err \<Rightarrow> Inl err
         | Inr st' \<Rightarrow> importSubkeys c p curPepIndex peptide ks st')
      else importSubkeys c p curPepIndex peptide ks st)"

fun importPeptides ::
  "collab \<Rightarrow> params \<Rightarrow> nat \<Rightarrow> pepIndex \<Rightarrow> importer \<Rightarrow> error + importer" where
  "importPeptides c p curPepIndex [] st = Inr st"
| "importPeptides c p curPepIndex ((peptide, subkeys) # rest) st =
     (case importSubkeys c p curPepIndex peptide (map fst subkeys) st of
        Inl err \<Rightarrow> Inl err
      | Inr st' \<Rightarrow> importPeptides c p curPepIndex rest st')"

text \<open>
  The outer loop: \<open>indices\<close> are the peptide indices from position \<open>curPepIndex\<close> on.
  Only UNION and APPEND go on to the next file.
\<close>

fun importFiles ::
  "collab \<Rightarrow> params \<Rightarrow> nat \<Rightarrow> pepIndex option list \<Rightarrow> importer \<Rightarrow> error + importer" where
  "importFiles c p curPepIndex [] st = Inr st"
| "importFiles c p curPepIndex (i # rest) st =
     (case (case i of None \<Rightarrow> Inr st
            | Some idx \<Rightarrow> importPeptides c p curPepIndex idx st) of
        Inl err \<Rightarrow> Inl err
      | Inr st' \<Rightarrow>
          if combineAction p \<noteq> ''UNION'' \<and> combineAction p \<noteq> ''APPEND'' then Inr st'
          else importFiles c p (curPepIndex + 1) rest st')"

fun reloadAndProcessSingletons ::
  "collab \<Rightarrow> params \<Rightarrow> (string \<times> string) list \<Rightarrow> importer \<Rightarrow> error + importer" where
  "reloadAndProcessSingletons c p [] st = Inr st"
| "reloadAndProcessSingletons c p (si # rest) st =
     (case doBuildAction c p (retrieveFrom p (m_pepIndices st) (fst si) (snd si) []) st of
        Inl err \<Rightarrow> Inl err
      | Inr st' \<Rightarrow> reloadAndProcessSingletons c p rest st')"

definition refresh :: "collab \<Rightarrow> params \<Rightarrow> importer \<Rightarrow> importer" where
  "refresh c p st =
     (case m_ppMappings st of
        None \<Rightarrow> st
      | Some pp \<Rightarrow> st\<lparr>m_ppMappings := Some (fastaRefresh c p pp)\<rparr>)"

subsection \<open>Subtracting homologs\<close>

text \<open>
  The two inner loops of \<^verbatim>\<open>doSubtractHomologs\<close>: the first entry of an index, and then
  the first index among the other files, with a peptide identical or homologous to
  \<open>pep\<close>. Retrieved entries without a peptide are passed over.
\<close>

fun findHomologAmong :: "collab \<Rightarrow> peptide \<Rightarrow> int \<Rightarrow> entry list \<Rightarrow> entry option" where
  "findHomologAmong c pep chg [] = None"
| "findHomologAmong c pep chg (en # rest) =
     (case peptidePtr en of
        None \<Rightarrow> findHomologAmong c pep chg rest
      | Some thisPep \<Rightarrow>
          if pep = thisPep \<or> (chg = charge en \<and> isHomolog c pep thisPep 0.7) then Some en
          else findHomologAmong c pep chg rest)"

fun findHomolog ::
  "collab \<Rightarrow> peptide \<Rightarrow> int \<Rightarrow> real \<Rightarrow> entry list option list \<Rightarrow> entry option" where
  "findHomolog c pep chg mz [] = None"
| "findHomolog c pep chg mz (i # rest) =
     (case i of
        None \<Rightarrow> findHomolog c pep chg mz rest
      | Some idx \<Rightarrow>
          (case findHomologAmong c pep chg (mzRetrieve idx (mz - 4.5) (mz + 4.5)) of
             Some en \<Rightarrow> Some en
           | None \<Rightarrow> findHomolog c pep chg mz rest))"

fun subtractHomologsLoop ::
  "collab \<Rightarrow> params \<Rightarrow> entry list option list \<Rightarrow> entry list \<Rightarrow> importer \<Rightarrow> importer" where
  "subtractHomologsLoop c p others [] st = st"
| "subtractHomologsLoop c p others (entry # rest) st =
     (case peptidePtr entry of
        None \<Rightarrow> subtractHomologsLoop c p others rest st
      | Some pep \<Rightarrow>
          (case findHomolog c pep (charge entry) (precursorMz entry) others of
             Some en \<Rightarrow>
               subtractHomologsLoop c p others rest
                 (st\<lparr>g_log := g_log st @ [LogMsg ''CREATE'' (homologLogLine c entry en)]\<rparr>)
           | None \<Rightarrow>
               subtractHomologsLoop c p others rest
                 (insertIfPassing c p (st\<lparr>m_count := m_count st + 1\<rparr>) entry)))"

definition doSubtractHomologs ::
  "collab \<Rightarrow> params \<Rightarrow> (string \<times> splib option) list \<Rightarrow> importer \<Rightarrow> error + importer" where
  "doSubtractHomologs c p files st0 =
     (let st1 = openSplibs p True False False True files st0;
          st2 = writePreamble st1
      in case m_mzIndices st2 of
           [] \<Rightarrow> Inl OutOfRange
         | None # others \<Rightarrow> Inr st2
         | Some mzIndex # others \<Rightarrow> Inr (subtractHomologsLoop c p others mzIndex st2))"

subsection \<open>Sorting by number of replicates\<close>

definition doSortByNreps ::
  "collab \<Rightarrow> params \<Rightarrow> (string \<times> splib option) list \<Rightarrow> importer \<Rightarrow> error + importer" where
  "doSortByNreps c p files st0 =
     (if length files \<noteq> 1 then
        Inr (logError ''SORT_BY_NREPS''
               ''Sorting by Nreps must be applied to one .splib file only. No library created.'' st0)
      else
        let desc = descrStr c p (map fst files);
            st1 = st0\<lparr>m_preamble := m_preamble st0 @ [desc],
                      g_log := g_log st0 @ [LogMsg ''CREATE'' desc]\<rparr>;
            st2 = openSplibs p True False False True files st1
        in case (m_splibFins st2, m_mzIndices st2) of
             (splibFin # _, mzIndex # _) \<Rightarrow>
               if splibFin = None then Inr st2
               else (case mzIndex of
                       None \<Rightarrow> Inr st2
                     | Some mz \<Rightarrow>
                         Inr (foldl (insertIfPassing c p) (writePreamble st2)
                                (sortEntriesByNreps c mz)))
           | _ \<Rightarrow> Inl OutOfRange)"

section \<open>Similarity clustering\<close>

text \<open>
  A cluster is a \<^verbatim>\<open>std::set\<close> of file offsets: a sorted list without repetitions.
\<close>

definition clusterInsert :: "int \<Rightarrow> int list \<Rightarrow> int list" where
  "clusterInsert x cluster = (if x \<in> set cluster then cluster else insort x cluster)"

text \<open>
  The loop of \<^verbatim>\<open>findSpectralNeighbors\<close> over the isobaric entries, an array of pointers
  in which \<^verbatim>\<open>NULL\<close> marks an entry no longer considered. It returns the array as the
  loop leaves it, the cluster, the hits, and the running count and sum of precursor m/z.
  The variable \<open>rnd\<close> is the recursion round (\<^verbatim>\<open>round\<close> in the program). A hit is
  the entry as it stands when it is accepted; nothing changes the entry between that moment
  and the recursive call on it.
\<close>

fun scanNeighbors ::
  "collab \<Rightarrow> params \<Rightarrow> peak list \<Rightarrow> real \<Rightarrow> real \<Rightarrow> nat \<Rightarrow> entry option list
     \<Rightarrow> int list \<Rightarrow> entry list \<Rightarrow> uint \<Rightarrow> real
     \<Rightarrow> entry option list \<times> int list \<times> entry list \<times> uint \<times> real" where
  "scanNeighbors c p pl lowMz highMz rnd [] cluster hits numInCluster sumMzInCluster =
     ([], cluster, hits, numInCluster, sumMzInCluster)"
| "scanNeighbors c p pl lowMz highMz rnd (en # rest) cluster hits numInCluster sumMzInCluster =
     (case en of
        None \<Rightarrow>
          (case scanNeighbors c p pl lowMz highMz rnd rest cluster hits numInCluster
                  sumMzInCluster of
             (rest', r) \<Rightarrow> (None # rest', r))
      | Some e \<Rightarrow>
          if libFileOffset e \<in> set cluster then
            (case scanNeighbors c p pl lowMz highMz rnd rest cluster hits numInCluster
                    sumMzInCluster of
               (rest', r) \<Rightarrow> (None # rest', r))
          else if precursorMz e < lowMz \<or> precursorMz e > highMz then
            (case scanNeighbors c p pl lowMz highMz rnd rest cluster hits numInCluster
                    sumMzInCluster of
               (rest', r) \<Rightarrow> (Some e # rest', r))
          else
            let e' = e\<lparr>peakList := simplify c (peakList e)\<rparr>;
                dot = compare c pl (peakList e')
            in if dot \<ge> unidentifiedClusterMinimumDot p - real rnd * 0.5 then
                 (case scanNeighbors c p pl lowMz highMz rnd rest
                         (clusterInsert (libFileOffset e') cluster) (hits @ [e'])
                         (numInCluster + 1) (sumMzInCluster + precursorMz e) of
                    (rest', r) \<Rightarrow> (Some e' # rest', r))
               else if dot < 0.3 then
                 (case scanNeighbors c p pl lowMz highMz rnd rest cluster hits numInCluster
                         sumMzInCluster of
                    (rest', r) \<Rightarrow> (None # rest', r))
               else
                 (case scanNeighbors c p pl lowMz highMz rnd rest cluster hits numInCluster
                         sumMzInCluster of
                    (rest', r) \<Rightarrow> (Some e' # rest', r)))"

text \<open>
  \<^verbatim>\<open>findSpectralNeighbors\<close>, with its closing loop over the hits as
  \<open>findNeighborsOfHits\<close>. It returns the array of isobaric entries and the cluster,
  both of which the program updates in place.
\<close>

function findSpectralNeighbors ::
  "collab \<Rightarrow> params \<Rightarrow> entry \<Rightarrow> real \<Rightarrow> nat \<Rightarrow> entry option list \<Rightarrow> int list
     \<Rightarrow> entry option list \<times> int list"
  and findNeighborsOfHits ::
  "collab \<Rightarrow> params \<Rightarrow> entry list \<Rightarrow> real \<Rightarrow> nat \<Rightarrow> entry option list \<Rightarrow> int list
     \<Rightarrow> entry option list \<times> int list" where
  "findSpectralNeighbors c p entry rootPrecursorMz rnd isobaricEntries cluster =
     (case scanNeighbors c p (simplify c (peakList entry))
             (rootPrecursorMz - 2.5 + real rnd) (rootPrecursorMz + 2.5 - real rnd) rnd
             isobaricEntries cluster [] (of_nat (length cluster))
             (rootPrecursorMz * real (length cluster)) of
        (isobaricEntries', cluster', hits, numInCluster, sumMzInCluster) \<Rightarrow>
          if rnd \<ge> 2 then (isobaricEntries', cluster')
          else findNeighborsOfHits c p hits (sumMzInCluster / real (unat numInCluster))
                 (rnd + 1) isobaricEntries' cluster')"
| "findNeighborsOfHits c p [] meanMzInCluster rnd isobaricEntries cluster =
     (isobaricEntries, cluster)"
| "findNeighborsOfHits c p (h # hs) meanMzInCluster rnd isobaricEntries cluster =
     (case findSpectralNeighbors c p h meanMzInCluster rnd isobaricEntries cluster of
        (isobaricEntries', cluster') \<Rightarrow>
          findNeighborsOfHits c p hs meanMzInCluster rnd isobaricEntries' cluster')"
  by pat_completeness auto
termination
  by (relation "measures [\<lambda>x. case x of Inl (c, p, e, rootMz, rnd, ies, cl) \<Rightarrow> 2 * (3 - rnd)
                              | Inr (c, p, hs, mean, rnd, ies, cl) \<Rightarrow> 2 * (3 - rnd) + 1,
                          \<lambda>x. case x of Inl _ \<Rightarrow> 0
                              | Inr (c, p, hs, mean, rnd, ies, cl) \<Rightarrow> length hs]") auto


text \<open>
  Modelled from the spec: reading an entry back from the library file by its byte offset
  gives the entry the index holds at that offset.
\<close>

definition entryAtOffset :: "entry list \<Rightarrow> int \<Rightarrow> entry option" where
  "entryAtOffset mz off = find (\<lambda>e. libFileOffset e = off) mz"

text \<open>
  The first loop of \<^verbatim>\<open>doSimilarityClustering\<close>, over the entries in sorted order.
  \<open>clusteredEntries\<close> maps a file offset to the number of its cluster, or to \<open>-1\<close> for
  a singleton; \<open>multiclusters\<close> are the clusters of two or more offsets.
\<close>

fun clusterLoop ::
  "collab \<Rightarrow> params \<Rightarrow> entry list \<Rightarrow> entry list \<Rightarrow> (int \<rightharpoonup> int) \<Rightarrow> int list list \<Rightarrow> importer
     \<Rightarrow> (int \<rightharpoonup> int) \<times> int list list \<times> importer" where
  "clusterLoop c p mz [] clusteredEntries multiclusters st =
     (clusteredEntries, multiclusters, st)"
| "clusterLoop c p mz (entry # rest) clusteredEntries multiclusters st =
     (if clusteredEntries (libFileOffset entry) \<noteq> None then
        clusterLoop c p mz rest clusteredEntries multiclusters st
      else
        let rootPrecursorMz = precursorMz entry;
            isobaricEntries =
              map (\<lambda>ie. if clusteredEntries (libFileOffset ie) \<noteq> None then None else Some ie)
                (mzRetrieve mz (rootPrecursorMz - 2.5) (rootPrecursorMz + 2.5));
            cluster = snd (findSpectralNeighbors c p entry rootPrecursorMz 0 isobaricEntries
                             [libFileOffset entry]);
            entry1 = entry\<lparr>peakList := simplify c (peakList entry)\<rparr>
        in if length cluster = 1 then
             let xrea = xreaOf c entry1;
                 entry2 = (case comments entry1 ''Xrea'' of
                             Some s \<Rightarrow> entry1
                           | None \<Rightarrow> entry1\<lparr>comments :=
                                        (comments entry1)(''Xrea'' \<mapsto> xreaComment c entry1)\<rparr>);
                 st' = (if passAllFilters c p st entry2
                           \<and> (nrepsUsed entry2 > 1
                                \<or> xrea \<ge> unidentifiedSingletonXreaThreshold p)
                        then insertEntry (processEntry c entry2) st else st)
             in clusterLoop c p mz rest (clusteredEntries(libFileOffset entry \<mapsto> -1))
                  multiclusters st'
           else
             clusterLoop c p mz rest
               (foldl (\<lambda>m i. m(i \<mapsto> int (length multiclusters))) clusteredEntries cluster)
               (multiclusters @ [cluster]) st)"

text \<open>The second loop: each cluster of two or more entries gives one consensus entry.\<close>

definition mergeCluster :: "collab \<Rightarrow> params \<Rightarrow> entry list \<Rightarrow> importer \<Rightarrow> int list \<Rightarrow> importer" where
  "mergeCluster c p mz st cluster =
     (case makeConsensusSpectrum c None (List.map_filter (entryAtOffset mz) cluster) of
        None \<Rightarrow> st
      | Some consensus \<Rightarrow> insertIfPassing c p st consensus)"

definition doSimilarityClustering ::
  "collab \<Rightarrow> params \<Rightarrow> (string \<times> splib option) list \<Rightarrow> importer \<Rightarrow> error + importer" where
  "doSimilarityClustering c p files st0 =
     (if length files \<noteq> 1 then
        Inr (logError ''SIMILARITY_CLUSTERING''
               ''Similarity clustering must be applied to one .splib file only. No library created.'' st0)
      else
        let desc = descrStr c p (map fst files);
            st1 = st0\<lparr>m_preamble := m_preamble st0 @ [desc],
                      g_log := g_log st0 @ [LogMsg ''CREATE'' desc]\<rparr>;
            st2 = openSplibs p True False False False files st1
        in case (m_splibFins st2, m_mzIndices st2) of
             (splibFin # _, mzIndex # _) \<Rightarrow>
               if splibFin = None then Inr st2
               else (case mzIndex of
                       None \<Rightarrow> Inr st2
                     | Some mz \<Rightarrow>
                         (case clusterLoop c p mz (sortEntriesBySN c mz) Map.empty []
                                 (writePreamble st2) of
                            (clusteredEntries, multiclusters, st3) \<Rightarrow>
                              Inr (foldl (mergeCluster c p mz) st3 multiclusters)))
           | _ \<Rightarrow> Inl OutOfRange)"

section \<open>The entry point\<close>

text \<open>
  Decoy generation and the generation of semi-empirical spectra are not modelled beyond the
  checks they start with; what they do after those checks is a parameter.
\<close>

record bodies =
  generateDecoyBody ::
    "params \<Rightarrow> (string \<times> splib option) list \<Rightarrow> importer \<Rightarrow> error + importer"
  userSpecifiedModsBody ::
    "params \<Rightarrow> (string \<times> splib option) list \<Rightarrow> importer \<Rightarrow> error + importer"

definition doGenerateDecoy ::
  "bodies \<Rightarrow> params \<Rightarrow> (string \<times> splib option) list \<Rightarrow> importer \<Rightarrow> error + importer" where
  "doGenerateDecoy b p files st =
     (if length files \<noteq> 1 then
        Inr (logError ''DECOY''
               ''Decoy generation must be applied to one .splib file only. No decoy library created.'' st)
      else generateDecoyBody b p files st)"

definition doUserSpecifiedModifications ::
  "bodies \<Rightarrow> params \<Rightarrow> (string \<times> splib option) list \<Rightarrow> importer \<Rightarrow> error + importer" where
  "doUserSpecifiedModifications b p files st =
     (if length files \<noteq> 1 then
        Inr (logError ''SEMI-EMPIRICAL''
               ''Semi-empirical spectrum generation must be applied to one .splib file only. No UserSpMods library created.'' st)
      else if allowableModTokens p = [] then
        Inr (logError ''SEMI-EMPIRICAL''
               ''No user-specified modifications specified. Please use -cx option to list all allowable mod tokens. No action performed.'' st)
      else userSpecifiedModsBody b p files st)"

text \<open>
  \<^verbatim>\<open>import\<close>. Building the file list reads the first file name, which is out of range
  when there is none.
\<close>

definition importSplibs ::
  "bodies \<Rightarrow> collab \<Rightarrow> params \<Rightarrow> (string \<times> splib option) list \<Rightarrow> importer
     \<Rightarrow> error + importer" where
  "importSplibs b c p files st0 =
     (if combineAction p = ''SUBTRACT_HOMOLOGS'' \<and> buildAction p \<noteq> [] then
        Inr (logError ''CREATE''
               (''Cannot perform build action '' @ buildAction p
                  @ '' together with combine action SUBTRACT_HOMOLOGS.'') st0)
      else if buildAction p = ''QUALITY_FILTER'' then doQualityFilter c p files st0
      else if buildAction p = ''DECOY'' then doGenerateDecoy b p files st0
      else if buildAction p = ''SORT_BY_NREPS'' then doSortByNreps c p files st0
      else if buildAction p = ''USER_SPECIFIED_MODS'' then
        doUserSpecifiedModifications b p files st0
      else if buildAction p = ''SIMILARITY_CLUSTERING'' then
        doSimilarityClustering c p files st0
      else if files = [] then Inl OutOfRange
      else
        let desc = descrStr c p (map fst files);
            st1 = st0\<lparr>m_preamble := m_preamble st0 @ [desc],
                      g_log := g_log st0 @ [LogMsg ''CREATE'' desc]\<rparr>
        in if combineAction p = ''SUBTRACT_HOMOLOGS'' then doSubtractHomologs c p files st1
           else
             let st2 = openSplibs p False True False True files st1;
                 st3 = writePreamble st2;
                 st4 = (if refreshDatabase p \<noteq> [] then refresh c p st3 else st3)
             in case m_pepIndices st4 of
                  [] \<Rightarrow> Inl OutOfRange
                | None # _ \<Rightarrow> Inr st4
                | Some pepIndex # _ \<Rightarrow>
                    (case importFiles c p 0 (m_pepIndices st4) st4 of
                       Inl err \<Rightarrow> Inl err
                     | Inr st5 \<Rightarrow>
                         if m_denoiser st5 \<noteq> None \<and> m_singletonPeptideIons st5 \<noteq> [] then
                           reloadAndProcessSingletons c p (m_singletonPeptideIons st5)
                             (st5\<lparr>m_denoiser := Some True\<rparr>)
                         else Inr st5))"

section \<open>Homologs, as the specification words them\<close>

text \<open>
  The exclusion test of \<open>SUBTRACT_HOMOLOGS\<close> in the words of the specification, to be
  compared with the loops \<open>findHomolog\<close> and \<open>findHomologAmong\<close>, which follow the program:
  \<open>en\<close> has an identical peptide, or a peptide at matching charge whose sequence identity
  with that of \<open>entry\<close> is at least 0.7.
\<close>

definition identicalOrHomologous :: "collab \<Rightarrow> entry \<Rightarrow> entry \<Rightarrow> bool" where
  "identicalOrHomologous c entry en =
     (case peptidePtr entry of
        None \<Rightarrow> False
      | Some pep \<Rightarrow>
          (case peptidePtr en of
             None \<Rightarrow> False
           | Some thisPep \<Rightarrow>
               pep = thisPep \<or> (charge entry = charge en \<and> isHomolog c pep thisPep 0.7)))"

text \<open>
  Some other input contains such an entry within 4.5 m/z of the precursor of \<open>entry\<close>.
  \<open>others\<close> are the mass indices of the other inputs, \<open>None\<close> for one that could not be
  opened.
\<close>

definition hasHomologElsewhere :: "collab \<Rightarrow> entry list option list \<Rightarrow> entry \<Rightarrow> bool" where
  "hasHomologElsewhere c others entry =
     list_ex (\<lambda>i. case i of
                None \<Rightarrow> False
              | Some idx \<Rightarrow>
                  list_ex (identicalOrHomologous c entry)
                    (mzRetrieve idx (precursorMz entry - 4.5) (precursorMz entry + 4.5)))
       others"

section \<open>Concrete inputs\<close>

text \<open>
  Small concrete collaborators, parameters and entries, used to run the model: every
  filter passes, no comment is cached, no two spectra are similar.
\<close>

definition exCollab :: collab where
  "exCollab =
     \<lparr>baseFilters = (\<lambda>e. True),
      processEntry = (\<lambda>e. e),
      indexKey = (\<lambda>e. (case peptidePtr e of Some pep \<Rightarrow> stripped pep | None \<Rightarrow> [], fragType e)),
      seNumEngines = (\<lambda>s. 1),
      parseFracUnassignedTop20 = (\<lambda>s. (0, 0, 20)),
      calcFractionUnassignedTop20 = (\<lambda>pep pl. (0, 0, 20)),
      fracUnassignedComment = (\<lambda>pep pl. ''0.00,0/20''),
      idxHasSharedSequence = (\<lambda>idx pep frag. True),
      compare = (\<lambda>a b. 0),
      simplify = (\<lambda>pl. pl),
      isHomolog = (\<lambda>a b minIdentity. False),
      descrStr = (\<lambda>p names. ''Create''),
      constructSubkey = fragType,
      findBestReplicate = (\<lambda>es. case es of [] \<Rightarrow> None | e # _ \<Rightarrow> Some e),
      makeConsensusSpectrum = (\<lambda>d es. case es of [] \<Rightarrow> None | e # _ \<Rightarrow> Some e),
      fastaRefresh = (\<lambda>p m. m),
      homologLogLine = (\<lambda>e en. ''Removed.''),
      sortEntriesByNreps = (\<lambda>es. es),
      sortEntriesBySN = (\<lambda>es. es),
      xreaOf = (\<lambda>e. 0),
      xreaComment = (\<lambda>e. ''0.000'')\<rparr>"

definition exParams :: params where
  "exParams =
     \<lparr>combineAction = ''UNION'', buildAction = '''',
      qualityLevelMark = 0, qualityLevelRemove = 0,
      qualityImmuneProbThreshold = 0.999, qualityImmuneMultipleEngines = False,
      qualityPenalizeSingletons = False, minimumNumReplicates = 3, peakQuorum = 0.6,
      refreshDatabase = '''', refreshDeleteUnmapped = False, refreshDeleteMultimapped = False,
      unidentifiedClusterMinimumDot = 0.7, unidentifiedSingletonXreaThreshold = 0,
      allowableModTokens = ''''\<rparr>"

definition exPeptide :: peptide where
  "exPeptide = \<lparr>stripped = ''PEPTIDE'', pepCharge = 2, pepMods = []\<rparr>"

definition exPeaks :: "peak list" where
  "exPeaks =
     [\<lparr>peakMz = 175, peakIntensity = 100, peakNreps = 1\<rparr>,
      \<lparr>peakMz = 300, peakIntensity = 50, peakNreps = 5\<rparr>]"

text \<open>A singleton: one replicate, probability below the immunity threshold.\<close>

definition exSingleton :: entry where
  "exSingleton =
     \<lparr>libId = 1, libFileOffset = 0, peptidePtr = Some exPeptide, charge = 2,
      precursorMz = 400, prob = 0.9, nrepsUsed = 1, status = ''Singleton'',
      fragType = ''CID'', comments = Map.empty, peakList = exPeaks\<rparr>"

text \<open>An immune entry: five replicates, probability 1.\<close>

definition exImmune :: entry where
  "exImmune =
     \<lparr>libId = 2, libFileOffset = 100, peptidePtr = Some exPeptide, charge = 2,
      precursorMz = 400, prob = 1, nrepsUsed = 5, status = ''Normal'',
      fragType = ''CID'', comments = Map.empty, peakList = exPeaks\<rparr>"

text \<open>An inquorate entry that is not a singleton: two replicates.\<close>

definition exPair :: entry where
  "exPair =
     \<lparr>libId = 3, libFileOffset = 200, peptidePtr = Some exPeptide, charge = 3,
      precursorMz = 500, prob = 0.9, nrepsUsed = 2, status = ''Normal'',
      fragType = ''CID'', comments = Map.empty, peakList = exPeaks\<rparr>"

text \<open>A library of these three entries, each under a peptide ion of its own.\<close>

definition exLib :: splib where
  "exLib =
     \<lparr>splibPreamble = [''> lib''],
      pepidx = [(''PEPTIDE'', [(''2|0|CID'', [exSingleton]), (''3|0|CID'', [exPair]),
                               (''2|0|ETD'', [exImmune])])],
      mzidx = [exSingleton, exImmune, exPair]\<rparr>"

definition exParamsMark :: params where
  "exParamsMark = exParams\<lparr>buildAction := ''QUALITY_FILTER'', qualityLevelMark := 5\<rparr>"

subsection \<open>Inputs for combining and clustering\<close>

definition exBodies :: bodies where
  "exBodies =
     \<lparr>generateDecoyBody = (\<lambda>p files st. Inr st),
      userSpecifiedModsBody = (\<lambda>p files st. Inr st)\<rparr>"

text \<open>A library of one entry, filed under the key that \<open>exCollab\<close> gives the entry.\<close>

definition exLibOne :: splib where
  "exLibOne =
     \<lparr>splibPreamble = [''> one''],
      pepidx = [(''PEPTIDE'', [(''CID'', [exSingleton])])],
      mzidx = [exSingleton]\<rparr>"

text \<open>An entry without a peptide identification, and a library holding only it.\<close>

definition exUnidentified :: entry where
  "exUnidentified = exSingleton\<lparr>libId := 4, libFileOffset := 300, peptidePtr := None\<rparr>"

definition exLibU :: splib where
  "exLibU = \<lparr>splibPreamble = [''> u''], pepidx = [], mzidx = [exUnidentified]\<rparr>"

text \<open>A library whose only entry lies far away in precursor m/z.\<close>

definition exFar :: entry where
  "exFar = exSingleton\<lparr>libId := 5, libFileOffset := 0, precursorMz := 900\<rparr>"

definition exLibFar :: splib where
  "exLibFar =
     \<lparr>splibPreamble = [''> far''],
      pepidx = [(''PEPTIDE'', [(''CID'', [exFar])])],
      mzidx = [exFar]\<rparr>"






section \<open>Properties of the quality filter\<close>

lemma immuneByProb_status [simp]:
  "immuneByProb p (e\<lparr>status := s\<rparr>) = immuneByProb p e"
  by (simp add: immuneByProb_def)

lemma immuneByEngines_status [simp]:
  "immuneByEngines c p (e\<lparr>status := s\<rparr>) = immuneByEngines c p e"
  by (simp add: immuneByEngines_def)

lemma conflictScan_status [simp]:
  "conflictScan c (e\<lparr>status := s\<rparr>) pep n pen es = conflictScan c e pep n pen es"
  by (induction es) (simp_all add: Let_def cong: if_cong option.case_cong)

lemma isBadConflictingID_status [simp]:
  "isBadConflictingID c lib (e\<lparr>status := s\<rparr>) n pen = isBadConflictingID c lib e n pen"
  by (simp add: isBadConflictingID_def cong: option.case_cong)

lemma hasSharedSequence_status [simp]:
  "hasSharedSequence c lib (e\<lparr>status := s\<rparr>) = hasSharedSequence c lib e"
  by (simp add: hasSharedSequence_def cong: option.case_cong)

lemma top20Unassigned_status [simp]:
  "top20Unassigned c (e\<lparr>status := s\<rparr>) pep = top20Unassigned c e pep"
  by (simp add: top20Unassigned_def cong: option.case_cong)

lemma cacheFracUnassigned_status [simp]:
  "cacheFracUnassigned c (e\<lparr>status := s\<rparr>) pep =
     (cacheFracUnassigned c e pep)\<lparr>status := s\<rparr>"
  by (simp add: cacheFracUnassigned_def split: option.splits)

lemma isImpure_status [simp]:
  "isImpure c (e\<lparr>status := s\<rparr>) n pen =
     (fst (isImpure c e n pen), (snd (isImpure c e n pen))\<lparr>status := s\<rparr>)"
  by (auto simp: isImpure_def split: option.splits prod.splits)

lemma isImpure_keeps [simp]:
  "status (snd (isImpure c e n pen)) = status e"
  "peakList (snd (isImpure c e n pen)) = peakList e"
  "nrepsUsed (snd (isImpure c e n pen)) = nrepsUsed e"
  by (simp_all add: isImpure_def cacheFracUnassigned_def split: option.splits prod.splits)

lemma doIf_simps [simp]:
  "doIf True f s = f s"
  "doIf False f s = s"
  by (simp_all add: doIf_def)

lemma doIf_qStats [simp]:
  "qEntry (doIf b (qStats_update f) x) = qEntry x"
  "inquorate (doIf b (qStats_update f) x) = inquorate x"
  "singleton (doIf b (qStats_update f) x) = singleton x"
  "unconfirmed (doIf b (qStats_update f) x) = unconfirmed x"
  "badConflictingID (doIf b (qStats_update f) x) = badConflictingID x"
  "qStats (doIf b (qStats_update f) x) = doIf b f (qStats x)"
  by (simp_all add: doIf_def)

lemma setStatus_simps [simp]:
  "qEntry (setStatus label x) = (qEntry x)\<lparr>status := label\<rparr>"
  "qStats (setStatus label x) = qStats x"
  "inquorate (setStatus label x) = inquorate x"
  "singleton (setStatus label x) = singleton x"
  "unconfirmed (setStatus label x) = unconfirmed x"
  "badConflictingID (setStatus label x) = badConflictingID x"
  by (simp_all add: setStatus_def)

lemma andThen_simps [simp]:
  "andThen (Inl err) f = Inl err"
  "andThen (Inr (Some b, x)) f = Inr (Some b, x)"
  "andThen (Inr (None, x)) f = f x"
  by (simp_all add: andThen_def)

lemmas cascade_defs = applyQualityFilter_def checkImmune_def checkLevel5_def
  checkLevel4_def checkLevel3_def checkLevel2_def checkLevel1_def enforcePeakQuorum_def
  setStatus_def incr_def

lemma applyQualityFilter_remove5:
  assumes "nrepsUsed e = 1" and "qualityLevelRemove p = 5" and "minimumNumReplicates p = 3"
    and "\<not> immuneByProb p e" and "\<not> immuneByEngines c p e"
  shows "applyQualityFilter c p lib e qs n =
           Inr (False, e\<lparr>status := ''Normal''\<rparr>, qs\<lparr>Q5 := Q5 qs + 1\<rparr>, n + 1)"
  using assms
  by (simp add: applyQualityFilter_def checkImmune_def checkLevel5_def repQuorum_def
      incr_def)

text \<open>
  Claim C1, as amended. For every entry with replicate count 1 that is not immune (its
  probability is below the immunity threshold and it is not exempted for being found by
  several search engines), a quality-filter call with \<open>qualityLevelRemove = 5\<close> and
  \<open>minimumNumReplicates = 3\<close> returns failure, so the loop of the run does not insert
  the entry, and the call counts the entry under \<open>Q5\<close> only: the removal at level 5
  returns before level 4 is looked at, and \<open>Q4\<close> keeps its value.
\<close>

theorem singleton_removed_at_level5_counted_in_Q5_only:
  assumes "nrepsUsed e = 1" and "qualityLevelRemove p = 5" and "minimumNumReplicates p = 3"
    and "\<not> immuneByProb p e" and "\<not> immuneByEngines c p e"
  shows "applyQualityFilter c p lib e qs n =
           Inr (False, e\<lparr>status := ''Normal''\<rparr>, qs\<lparr>Q5 := Q5 qs + 1\<rparr>, n + 1)
         \<and> Q4 (qs\<lparr>Q5 := Q5 qs + 1\<rparr>) = Q4 qs
         \<and> (\<exists>qs' st'. qualityFilterLoop c p [e] qs st = Inr (qs', st')
                \<and> libEntries st' = libEntries st)"
proof -
  have run: "applyQualityFilter c p (m_QFSearchLib st) e qs (m_count st) =
      Inr (False, e\<lparr>status := ''Normal''\<rparr>, qs\<lparr>Q5 := Q5 qs + 1\<rparr>, m_count st + 1)"
    by (rule applyQualityFilter_remove5 [OF assms])
  have "\<exists>qs' st'. qualityFilterLoop c p [e] qs st = Inr (qs', st')
          \<and> libEntries st' = libEntries st"
    by (cases "passAllFilters c p st e") (simp_all add: run)
  then show ?thesis
    using applyQualityFilter_remove5 [OF assms, of lib qs n] by simp
qed

theorem singleton_removed_at_level5_witness:
  "nrepsUsed exSingleton = 1
   \<and> qualityLevelRemove (exParams\<lparr>qualityLevelRemove := 5\<rparr>) = 5
   \<and> minimumNumReplicates (exParams\<lparr>qualityLevelRemove := 5\<rparr>) = 3
   \<and> \<not> immuneByProb (exParams\<lparr>qualityLevelRemove := 5\<rparr>) exSingleton
   \<and> \<not> immuneByEngines exCollab (exParams\<lparr>qualityLevelRemove := 5\<rparr>) exSingleton
   \<and> applyQualityFilter exCollab (exParams\<lparr>qualityLevelRemove := 5\<rparr>) None exSingleton
        zeroStats 0 =
       Inr (False, exSingleton\<lparr>status := ''Normal''\<rparr>, zeroStats\<lparr>Q5 := Q5 zeroStats + 1\<rparr>,
            0 + 1)"
proof -
  let ?p = "exParams\<lparr>qualityLevelRemove := 5\<rparr>"
  have h1: "nrepsUsed exSingleton = 1" by (simp add: exSingleton_def)
  have h2: "qualityLevelRemove ?p = 5" by simp
  have h3: "minimumNumReplicates ?p = 3" by (simp add: exParams_def)
  have h4: "\<not> immuneByProb ?p exSingleton"
    by (simp add: immuneByProb_def exParams_def exSingleton_def)
  have h5: "\<not> immuneByEngines exCollab ?p exSingleton"
    by (simp add: immuneByEngines_def exParams_def)
  show ?thesis
    using singleton_removed_at_level5_counted_in_Q5_only
            [OF h1 h2 h3 h4 h5, of None zeroStats 0 "newImporter None"] h1 h2 h3 h4 h5
    by simp
qed

text \<open>
  The claim as it is written fails on the singleton \<open>exSingleton\<close>: the call removes it
  and counts it under \<open>Q5\<close>, and the \<open>Q4\<close> counter is still 0 afterwards.
\<close>

theorem singleton_removed_at_level5_not_counted_in_Q4:
  "applyQualityFilter exCollab (exParams\<lparr>qualityLevelRemove := 5\<rparr>) None exSingleton
     zeroStats 0 =
     Inr (False, exSingleton\<lparr>status := ''Normal''\<rparr>, zeroStats\<lparr>Q5 := 1\<rparr>, 1)
   \<and> Q4 (zeroStats\<lparr>Q5 := 1\<rparr>) = 0"
  by (simp add: applyQualityFilter_def checkImmune_def checkLevel5_def repQuorum_def
      incr_def immuneByProb_def immuneByEngines_def exParams_def exSingleton_def
      zeroStats_def)

subsection \<open>Running the model on the concrete inputs\<close>

lemma exLib_unique: "isUniqueLibrary (pepidx exLib)"
  by (simp add: isUniqueLibrary_def exLib_def)

lemmas ex_defs = exLib_def exParamsMark_def exParams_def exCollab_def exSingleton_def
  exImmune_def exPair_def exPeptide_def exPeaks_def

lemmas qf_eval_defs = passAllFilters_def insertEntry_def cascade_defs immuneByProb_def
  immuneByEngines_def repQuorum_def hasSharedSequence_def isBadConflictingID_def
  mzRetrieve_def isImpure_def top20Unassigned_def cacheFracUnassigned_def
  removeInquoratePeaks_def minNumRepWithPeak_def toUInt_def zeroStats_def level1_def
  level2_def level3_def level4_def level5_def


subsection \<open>Inclusion and exclusion in the reported levels\<close>

text \<open>
  One call of the cascade with every level marking and none removing changes the level-\<open>k\<close>
  figure by one exactly when the same call with removal at levels 1 to \<open>k\<close> keeps the
  entry. The proof runs the cascade on each combination of triggered concerns.
\<close>

lemma immune_remove_irrelevant [simp]:
  "immuneByProb (p\<lparr>qualityLevelRemove := k\<rparr>) e = immuneByProb p e"
  "immuneByEngines c (p\<lparr>qualityLevelRemove := k\<rparr>) e = immuneByEngines c p e"
  "repQuorum (p\<lparr>qualityLevelRemove := k\<rparr>) = repQuorum p"
  by (simp_all add: immuneByProb_def immuneByEngines_def repQuorum_def)

lemma applyQualityFilter_levels_step:
  assumes mark: "qualityLevelMark p \<ge> 5" and rem: "qualityLevelRemove p = 0"
    and run: "applyQualityFilter c p (Some l) e qs n = Inr (ok, e', qs', n')"
  shows "(\<exists>okK eK qsK' nK'.
           applyQualityFilter c (p\<lparr>qualityLevelRemove := 1\<rparr>) (Some l) e qsK nK = Inr (okK, eK, qsK', nK')
           \<and> level1 n' qs' = level1 n qs + (if okK then 1 else 0))
       \<and> (\<exists>okK eK qsK' nK'.
           applyQualityFilter c (p\<lparr>qualityLevelRemove := 2\<rparr>) (Some l) e qsK nK = Inr (okK, eK, qsK', nK')
           \<and> level2 n' qs' = level2 n qs + (if okK then 1 else 0))
       \<and> (\<exists>okK eK qsK' nK'.
           applyQualityFilter c (p\<lparr>qualityLevelRemove := 3\<rparr>) (Some l) e qsK nK = Inr (okK, eK, qsK', nK')
           \<and> level3 n' qs' = level3 n qs + (if okK then 1 else 0))
       \<and> (\<exists>okK eK qsK' nK'.
           applyQualityFilter c (p\<lparr>qualityLevelRemove := 4\<rparr>) (Some l) e qsK nK = Inr (okK, eK, qsK', nK')
           \<and> level4 n' qs' = level4 n qs + (if okK then 1 else 0))
       \<and> (\<exists>okK eK qsK' nK'.
           applyQualityFilter c (p\<lparr>qualityLevelRemove := 5\<rparr>) (Some l) e qsK nK = Inr (okK, eK, qsK', nK')
           \<and> level5 n' qs' = level5 n qs + (if okK then 1 else 0))"
proof -
  let ?n = "nrepsUsed e" and ?pen = "qualityPenalizeSingletons p"
  obtain m em where M: "isImpure c e ?n ?pen = (m, em)" by (cases "isImpure c e ?n ?pen")
  note lv = level1_def level2_def level3_def level4_def level5_def
  consider (ip) "immuneByProb p e" | (ie) "\<not> immuneByProb p e" "immuneByEngines c p e"
    | (no) "\<not> immuneByProb p e" "\<not> immuneByEngines c p e" by blast
  then show ?thesis
  proof cases
    case ip
    then show ?thesis using run
      by (clarsimp simp: applyQualityFilter_def andThen_def checkImmune_def lv; blast?)
  next
    case ie
    then show ?thesis using run
      by (clarsimp simp: applyQualityFilter_def andThen_def checkImmune_def lv; blast?)
  next
    case no
    show ?thesis
    proof (cases "isBadConflictingID c (Some l) e ?n ?pen")
      case (Inl err)
      then show ?thesis using no mark rem run
        by (cases "?n < repQuorum p"; cases "?n = 1"; cases "hasSharedSequence c (Some l) e")
           (clarsimp simp: cascade_defs split: bool.splits)+
    next
      case (Inr b)
      show ?thesis
      proof (cases "?n < repQuorum p")
        case False
        then show ?thesis using no mark rem Inr M run
          by (cases b; cases m) (clarsimp simp add: cascade_defs lv; blast?)+
      next
        case True
        show ?thesis
        proof (cases "hasSharedSequence c (Some l) e")
          case (Inl err)
          then show ?thesis using no mark rem True run
            by (cases "?n = 1") (clarsimp simp add: cascade_defs)+
        next
          case h: (Inr h)
          show ?thesis using no mark rem True Inr M h run
            by (cases b; cases m; cases h; cases "?n = 1") (clarsimp simp add: cascade_defs lv; blast?)+
        qed
      qed
    qed
  qed
qed


lemma passAllFilters_remove_irrelevant:
  "m_ppMappings st = m_ppMappings stK \<Longrightarrow>
   passAllFilters c (p\<lparr>qualityLevelRemove := k\<rparr>) stK e = passAllFilters c p st e"
  by (simp add: passAllFilters_def cong: option.case_cong if_cong)

lemma qualityFilterLoop_levels:
  fixes L :: "uint \<Rightarrow> QFStats \<Rightarrow> uint"
  assumes step: "\<And>e qs n ok e' qs' n' qsK nK.
      applyQualityFilter c p (Some l) e qs n = Inr (ok, e', qs', n') \<Longrightarrow>
      \<exists>okK eK qsK' nK'.
        applyQualityFilter c (p\<lparr>qualityLevelRemove := k\<rparr>) (Some l) e qsK nK = Inr (okK, eK, qsK', nK')
        \<and> L n' qs' = L n qs + (if okK then 1 else 0)"
  shows "m_QFSearchLib st = Some l \<Longrightarrow> m_QFSearchLib stK = Some l \<Longrightarrow>
         m_ppMappings st = m_ppMappings stK \<Longrightarrow>
         qualityFilterLoop c p es qs st = Inr (qs', st') \<Longrightarrow>
         \<exists>qsK' stK'.
           qualityFilterLoop c (p\<lparr>qualityLevelRemove := k\<rparr>) es qsK stK = Inr (qsK', stK')
           \<and> L (m_count st') qs' + of_nat (length (libEntries stK))
               = L (m_count st) qs + of_nat (length (libEntries stK'))"
proof (induction es arbitrary: qs st qsK stK)
  case Nil
  then show ?case by simp
next
  case (Cons e es)
  have pf: "passAllFilters c (p\<lparr>qualityLevelRemove := k\<rparr>) stK e = passAllFilters c p st e"
    using Cons.prems(3) by (rule passAllFilters_remove_irrelevant)
  show ?case
  proof (cases "passAllFilters c p st e")
    case False
    then show ?thesis using Cons.IH [OF Cons.prems(1,2,3), of qs qsK] Cons.prems(4) pf
      by simp
  next
    case True
    from Cons.prems(4) True obtain ok e1 qs1 n1 where
      run: "applyQualityFilter c p (Some l) e qs (m_count st) = Inr (ok, e1, qs1, n1)"
      using Cons.prems(1) by (auto split: sum.splits)
    from step [OF run, of qsK "m_count stK"] obtain okK eK qsK1 nK1 where
      runK: "applyQualityFilter c (p\<lparr>qualityLevelRemove := k\<rparr>) (Some l) e qsK (m_count stK)
               = Inr (okK, eK, qsK1, nK1)"
      and lv: "L n1 qs1 = L (m_count st) qs + (if okK then 1 else 0)"
      by blast
    let ?st1 = "if ok then insertEntry (processEntry c e1) (st\<lparr>m_count := n1\<rparr>) else st\<lparr>m_count := n1\<rparr>"
    let ?stK1 = "if okK then insertEntry (processEntry c eK) (stK\<lparr>m_count := nK1\<rparr>)
                 else stK\<lparr>m_count := nK1\<rparr>"
    have rest: "qualityFilterLoop c p es qs1 ?st1 = Inr (qs', st')"
      using Cons.prems(4) True run Cons.prems(1) by (cases ok) simp_all
    have inv: "m_QFSearchLib ?st1 = Some l" "m_QFSearchLib ?stK1 = Some l"
      "m_ppMappings ?st1 = m_ppMappings ?stK1"
      using Cons.prems(1,2,3) by (simp_all add: insertEntry_def)
    from Cons.IH [OF inv rest, of qsK1] obtain qsK' stK' where
      loopK: "qualityFilterLoop c (p\<lparr>qualityLevelRemove := k\<rparr>) es qsK1 ?stK1 = Inr (qsK', stK')"
      and eq: "L (m_count st') qs' + of_nat (length (libEntries ?stK1))
               = L (m_count ?st1) qs1 + of_nat (length (libEntries stK'))"
      by blast
    have "qualityFilterLoop c (p\<lparr>qualityLevelRemove := k\<rparr>) (e # es) qsK stK = Inr (qsK', stK')"
      using loopK runK pf True Cons.prems(2) by (cases okK) simp_all
    moreover have "L (m_count st') qs' + of_nat (length (libEntries stK))
               = L (m_count st) qs + of_nat (length (libEntries stK'))"
      using eq lv by (cases ok; cases okK) (simp_all add: insertEntry_def)
    ultimately show ?thesis by blast
  qed
qed


lemma doQualityFilter_single:
  assumes "isUniqueLibrary (pepidx lib)"
  shows "doQualityFilter c p [(name, Some lib)] (newImporter d) =
           (case qualityFilterLoop c p (mzidx lib) zeroStats
                   \<lparr>m_preamble = descrStr c p [name] # splibPreamble lib,
                    m_splibFins = [Some lib],
                    m_pepIndices = [Some (pepidx lib)],
                    m_mzIndices = [Some (mzidx lib)],
                    m_QFSearchLib =
                      (if qualityLevelMark p \<ge> 2 \<or> qualityLevelRemove p \<ge> 2
                       then Some lib else None),
                    m_ppMappings =
                      (if refreshDatabase p \<noteq> []
                       then Some (foldl (\<lambda>m seq. m(seq \<mapsto> None)) Map.empty
                                   (getAllSequences (pepidx lib)))
                       else None),
                    m_count = 0, m_denoiser = d, m_singletonPeptideIons = [],
                    libPreamble = Some (descrStr c p [name] # splibPreamble lib),
                    libEntries = [],
                    g_log = [LogMsg ''CREATE'' (descrStr c p [name])]\<rparr> of
              Inl err \<Rightarrow> Inl err
            | Inr (qfstats, st5) \<Rightarrow>
                if qualityLevelMark p \<ge> 5 \<and> qualityLevelRemove p = 0 then
                  Inr (st5\<lparr>g_log := g_log st5 @
                        [LogStats ''QUALITY_FILTER STATS''
                           [immuneProb qfstats, immuneEngine qfstats],
                         LogStats ''QUALITY_FILTER STATS''
                           [m_count st5,
                            level1 (m_count st5) qfstats,
                            level2 (m_count st5) qfstats,
                            level3 (m_count st5) qfstats,
                            level4 (m_count st5) qfstats,
                            level5 (m_count st5) qfstats]]\<rparr>)
                else Inr st5)"
  using assms
  by (simp add: doQualityFilter_def openSplibs_def openOneSplib_def newImporter_def
      writePreamble_def addSequencesForRefresh_def openSearchLib_def Let_def)

lemma doQualityFilter_stats_logged:
  assumes "doQualityFilter c p files (newImporter d) = Inr st"
    and "g_log st = lg @ [LogStats tag ls]"
  shows "\<exists>name lib. files = [(name, Some lib)] \<and> isUniqueLibrary (pepidx lib)"
proof -
  have len: "length files = 1"
    using assms by (auto simp: doQualityFilter_def logError_def newImporter_def split: if_splits)
  then obtain name f where files: "files = [(name, f)]"
    by (cases files) (auto simp: length_Suc_conv)
  show ?thesis
  proof (cases f)
    case None
    then show ?thesis using assms files
      by (auto simp: doQualityFilter_def openSplibs_def openOneSplib_def newImporter_def logError_def Let_def)
  next
    case (Some lib)
    then show ?thesis using assms files
      by (cases "isUniqueLibrary (pepidx lib)")
        (auto simp: doQualityFilter_def openSplibs_def openOneSplib_def newImporter_def logError_def Let_def)
  qed
qed


text \<open>
  Claim C5. In a run with \<open>qualityLevelMark \<ge> 5\<close> and \<open>qualityLevelRemove = 0\<close> that
  reports its statistics, the remaining count reported for each level \<open>k\<close> from 1 to 5
  is the number of entries that the same run with removal at levels 1 to \<open>k\<close>
  (\<open>qualityLevelRemove = k\<close>) writes to its output. The counters are unsigned 32-bit
  integers, and so is the equality: the reported figure is the number of survivors as an
  \<^verbatim>\<open>unsigned int\<close>.
\<close>

theorem reported_levels_count_survivors:
  assumes mark: "qualityLevelMark p \<ge> 5" and rem: "qualityLevelRemove p = 0"
    and run: "doQualityFilter c p files (newImporter d) = Inr st"
    and logged: "g_log st = lg @ [LogStats ''QUALITY_FILTER STATS'' [cnt, l1, l2, l3, l4, l5]]"
  shows "(\<exists>st1. doQualityFilter c (p\<lparr>qualityLevelRemove := 1\<rparr>) files (newImporter d) = Inr st1
              \<and> l1 = of_nat (length (libEntries st1)))
       \<and> (\<exists>st2. doQualityFilter c (p\<lparr>qualityLevelRemove := 2\<rparr>) files (newImporter d) = Inr st2
              \<and> l2 = of_nat (length (libEntries st2)))
       \<and> (\<exists>st3. doQualityFilter c (p\<lparr>qualityLevelRemove := 3\<rparr>) files (newImporter d) = Inr st3
              \<and> l3 = of_nat (length (libEntries st3)))
       \<and> (\<exists>st4. doQualityFilter c (p\<lparr>qualityLevelRemove := 4\<rparr>) files (newImporter d) = Inr st4
              \<and> l4 = of_nat (length (libEntries st4)))
       \<and> (\<exists>st5. doQualityFilter c (p\<lparr>qualityLevelRemove := 5\<rparr>) files (newImporter d) = Inr st5
              \<and> l5 = of_nat (length (libEntries st5)))"
proof -
  from doQualityFilter_stats_logged [OF run logged] obtain name lib where
    files: "files = [(name, Some lib)]" and uniq: "isUniqueLibrary (pepidx lib)"
    by blast
  let ?start = "\<lambda>p. \<lparr>m_preamble = descrStr c p [name] # splibPreamble lib,
                    m_splibFins = [Some lib],
                    m_pepIndices = [Some (pepidx lib)],
                    m_mzIndices = [Some (mzidx lib)],
                    m_QFSearchLib =
                      (if qualityLevelMark p \<ge> 2 \<or> qualityLevelRemove p \<ge> 2
                       then Some lib else None),
                    m_ppMappings =
                      (if refreshDatabase p \<noteq> []
                       then Some (foldl (\<lambda>m seq. m(seq \<mapsto> None)) Map.empty
                                   (getAllSequences (pepidx lib)))
                       else None),
                    m_count = 0, m_denoiser = d, m_singletonPeptideIons = [],
                    libPreamble = Some (descrStr c p [name] # splibPreamble lib),
                    libEntries = [],
                    g_log = [LogMsg ''CREATE'' (descrStr c p [name])]\<rparr>"
  from run files doQualityFilter_single [OF uniq, of c p name d] mark rem
  obtain qfstats st5 where
    loop: "qualityFilterLoop c p (mzidx lib) zeroStats (?start p) = Inr (qfstats, st5)"
    and st: "st = st5\<lparr>g_log := g_log st5 @
                        [LogStats ''QUALITY_FILTER STATS''
                           [immuneProb qfstats, immuneEngine qfstats],
                         LogStats ''QUALITY_FILTER STATS''
                           [m_count st5,
                            level1 (m_count st5) qfstats,
                            level2 (m_count st5) qfstats,
                            level3 (m_count st5) qfstats,
                            level4 (m_count st5) qfstats,
                            level5 (m_count st5) qfstats]]\<rparr>"
    by (auto split: sum.splits)
  from st logged have ls: "l1 = level1 (m_count st5) qfstats" "l2 = level2 (m_count st5) qfstats"
    "l3 = level3 (m_count st5) qfstats" "l4 = level4 (m_count st5) qfstats"
    "l5 = level5 (m_count st5) qfstats"
    by auto
  have gen: "\<exists>stK. doQualityFilter c (p\<lparr>qualityLevelRemove := k\<rparr>) files (newImporter d) = Inr stK
              \<and> L (m_count st5) qfstats = of_nat (length (libEntries stK))"
    if step: "\<And>e qs n ok e' qs' n' qsK nK.
      applyQualityFilter c p (Some lib) e qs n = Inr (ok, e', qs', n') \<Longrightarrow>
      \<exists>okK eK qsK' nK'.
        applyQualityFilter c (p\<lparr>qualityLevelRemove := k\<rparr>) (Some lib) e qsK nK = Inr (okK, eK, qsK', nK')
        \<and> L n' qs' = L n qs + (if okK then 1 else 0)"
      and k: "k \<noteq> 0" and L0: "L 0 zeroStats = 0"
    for L :: "uint \<Rightarrow> QFStats \<Rightarrow> uint" and k
  proof -
    let ?pk = "p\<lparr>qualityLevelRemove := k\<rparr>"
    have a: "m_QFSearchLib (?start p) = Some lib" "m_QFSearchLib (?start ?pk) = Some lib"
      "m_ppMappings (?start p) = m_ppMappings (?start ?pk)"
      using mark by simp_all
    have "\<exists>qsK' stK'.
            qualityFilterLoop c ?pk (mzidx lib) zeroStats (?start ?pk) = Inr (qsK', stK')
            \<and> L (m_count st5) qfstats + of_nat (length (libEntries (?start ?pk)))
                = L (m_count (?start p)) zeroStats + of_nat (length (libEntries stK'))"
    proof (rule qualityFilterLoop_levels [where l = lib and L = L])
      show "\<exists>okK eK qsK' nK'.
              applyQualityFilter c ?pk (Some lib) e qs n = Inr (okK, eK, qsK', nK')
              \<and> L n' qs' = L na qsa + (if okK then 1 else 0)"
        if "applyQualityFilter c p (Some lib) e qsa na = Inr (ok, e', qs', n')"
        for e qsa na ok e' qs' n' qs n
        using that by (rule step)
    qed (rule a loop)+
    then obtain qsK' stK' where
      loopK: "qualityFilterLoop c ?pk (mzidx lib) zeroStats (?start ?pk) = Inr (qsK', stK')"
      and eq: "L (m_count st5) qfstats + of_nat (length (libEntries (?start ?pk)))
               = L (m_count (?start p)) zeroStats + of_nat (length (libEntries stK'))"
      by blast
    have "doQualityFilter c ?pk files (newImporter d) = Inr stK'"
      using doQualityFilter_single [OF uniq, of c ?pk name d] loopK k files by simp
    moreover have "L (m_count st5) qfstats = of_nat (length (libEntries stK'))"
      using eq L0 by simp
    ultimately show ?thesis by blast
  qed
  note steps = applyQualityFilter_levels_step [OF mark rem]
  have "\<exists>st1. doQualityFilter c (p\<lparr>qualityLevelRemove := 1\<rparr>) files (newImporter d) = Inr st1
              \<and> l1 = of_nat (length (libEntries st1))"
    unfolding ls by (rule gen) (use steps in \<open>blast, simp, simp add: level1_def zeroStats_def\<close>)
  moreover have "\<exists>st2. doQualityFilter c (p\<lparr>qualityLevelRemove := 2\<rparr>) files (newImporter d) = Inr st2
              \<and> l2 = of_nat (length (libEntries st2))"
    unfolding ls by (rule gen) (use steps in \<open>blast, simp, simp add: level1_def level2_def zeroStats_def\<close>)
  moreover have "\<exists>st3. doQualityFilter c (p\<lparr>qualityLevelRemove := 3\<rparr>) files (newImporter d) = Inr st3
              \<and> l3 = of_nat (length (libEntries st3))"
    unfolding ls by (rule gen) (use steps in \<open>blast, simp, simp add: level1_def level2_def level3_def zeroStats_def\<close>)
  moreover have "\<exists>st4. doQualityFilter c (p\<lparr>qualityLevelRemove := 4\<rparr>) files (newImporter d) = Inr st4
              \<and> l4 = of_nat (length (libEntries st4))"
    unfolding ls by (rule gen) (use steps in \<open>blast, simp, simp add: level1_def level2_def level3_def level4_def zeroStats_def\<close>)
  moreover have "\<exists>st5. doQualityFilter c (p\<lparr>qualityLevelRemove := 5\<rparr>) files (newImporter d) = Inr st5
              \<and> l5 = of_nat (length (libEntries st5))"
    unfolding ls by (rule gen) (use steps in \<open>blast, simp, simp add: level1_def level2_def level3_def level4_def level5_def zeroStats_def\<close>)
  ultimately show ?thesis by blast
qed


text \<open>
  A run on the three-entry library \<open>exLib\<close>: a singleton, an immune entry and an entry
  with two replicates. It reports 3, 3, 3, 3, 2 and 1 for the levels 0 to 5, and the runs
  removing at levels 1 to 4 and 1 to 5 write two entries and one entry.
\<close>

lemma exLib_run_reports:
  "\<exists>st lg. doQualityFilter exCollab exParamsMark [(''a.splib'', Some exLib)] (newImporter None)
              = Inr st
     \<and> g_log st = lg @ [LogStats ''QUALITY_FILTER STATS'' [3, 3, 3, 3, 2, 1]]"
  apply (simp add: doQualityFilter_single [OF exLib_unique])
  apply (simp add: ex_defs qf_eval_defs)
  done

theorem reported_levels_count_survivors_witness:
  "qualityLevelMark exParamsMark \<ge> 5
   \<and> qualityLevelRemove exParamsMark = 0
   \<and> (\<exists>st lg. doQualityFilter exCollab exParamsMark [(''a.splib'', Some exLib)]
                  (newImporter None) = Inr st
          \<and> g_log st = lg @ [LogStats ''QUALITY_FILTER STATS'' [3, 3, 3, 3, 2, 1]])
   \<and> (\<exists>st4. doQualityFilter exCollab (exParamsMark\<lparr>qualityLevelRemove := 4\<rparr>)
                [(''a.splib'', Some exLib)] (newImporter None) = Inr st4
          \<and> (2 :: uint) = of_nat (length (libEntries st4)))
   \<and> (\<exists>st5. doQualityFilter exCollab (exParamsMark\<lparr>qualityLevelRemove := 5\<rparr>)
                [(''a.splib'', Some exLib)] (newImporter None) = Inr st5
          \<and> (1 :: uint) = of_nat (length (libEntries st5)))"
proof -
  have mark: "qualityLevelMark exParamsMark \<ge> 5"
    and rem: "qualityLevelRemove exParamsMark = 0"
    by (simp_all add: exParamsMark_def exParams_def)
  from exLib_run_reports obtain st lg where
    run: "doQualityFilter exCollab exParamsMark [(''a.splib'', Some exLib)] (newImporter None)
            = Inr st"
    and logged: "g_log st = lg @ [LogStats ''QUALITY_FILTER STATS'' [3, 3, 3, 3, 2, 1]]"
    by blast
  from reported_levels_count_survivors [OF mark rem run logged] mark rem run logged
  show ?thesis by blast
qed

subsection \<open>The status label\<close>

lemma andThen_invariant:
  assumes "andThen r f = Inr (r', x')"
    and "\<And>ra x. r = Inr (ra, x) \<Longrightarrow> P x"
    and "\<And>x ra xa. P x \<Longrightarrow> f x = Inr (ra, xa) \<Longrightarrow> P' xa"
    and "\<And>x. P x \<Longrightarrow> P' x"
  shows "P' x'"
proof (cases r)
  case (Inl err)
  then show ?thesis using assms(1) by simp
next
  case (Inr rx)
  obtain ra x where rx: "rx = (ra, x)" by (cases rx)
  show ?thesis
  proof (cases ra)
    case None
    then show ?thesis using assms Inr rx by auto
  next
    case (Some b)
    then show ?thesis using assms Inr rx by auto
  qed
qed

lemma checkLevel5_unmarked:
  assumes "checkLevel5 p n x = Inr (r, x')"
    and "\<not> (qualityLevelMark p \<ge> 5 \<and> n < repQuorum p)"
  shows "qEntry x' = qEntry x \<and> inquorate x' = (n < repQuorum p)"
  using assms by (auto simp: checkLevel5_def Let_def split: if_splits)

lemma checkLevel4_unmarked:
  assumes "checkLevel4 p n x = Inr (r, x')"
    and "\<not> (qualityLevelMark p \<ge> 4 \<and> inquorate x \<and> n = 1)"
  shows "qEntry x' = qEntry x \<and> inquorate x' = inquorate x"
  using assms by (auto simp: checkLevel4_def Let_def split: if_splits)

lemma checkLevel3_unmarked:
  assumes "checkLevel3 c p lib x = Inr (r, x')"
    and "\<not> (qualityLevelMark p \<ge> 3 \<and> inquorate x \<and> hasSharedSequence c lib (qEntry x) = Inr False)"
  shows "qEntry x' = qEntry x \<and> inquorate x' = inquorate x"
  using assms by (auto simp: checkLevel3_def Let_def split: if_splits sum.splits bool.splits)

lemma checkLevel2_unmarked:
  assumes "checkLevel2 c p lib n x = Inr (r, x')"
    and "\<not> (qualityLevelMark p \<ge> 2 \<and> isBadConflictingID c lib (qEntry x) n (qualityPenalizeSingletons p) = Inr True)"
  shows "qEntry x' = qEntry x \<and> inquorate x' = inquorate x"
  using assms by (auto simp: checkLevel2_def Let_def split: if_splits sum.splits bool.splits)

lemma checkLevel1_unmarked:
  assumes "checkLevel1 c p n x = Inr (r, x')"
    and "\<not> (qualityLevelMark p \<ge> 1 \<and> fst (isImpure c (qEntry x) n (qualityPenalizeSingletons p)))"
  shows "status (qEntry x') = status (qEntry x)"
proof -
  obtain m em where M: "isImpure c (qEntry x) n (qualityPenalizeSingletons p) = (m, em)"
    by (cases "isImpure c (qEntry x) n (qualityPenalizeSingletons p)")
  have "status em = status (qEntry x)"
    using isImpure_keeps(1) [of c "qEntry x" n "qualityPenalizeSingletons p"] M by simp
  then show ?thesis
    using assms M by (cases m) (auto simp: checkLevel1_def Let_def split: if_splits)
qed


lemma checkImmune_cases:
  "checkImmune c p x = Inr (r, x') \<Longrightarrow> qEntry x' = qEntry x \<and> inquorate x' = inquorate x"
  by (auto simp: checkImmune_def split: if_splits)

text \<open>
  Claim C9. The cascade sets the status of the entry to \<open>Normal\<close> before it looks at
  anything else, so the status the entry came with plays no part in the result: the call
  on the entry relabelled with any status \<open>s\<close> returns what the call on the entry
  returns. An entry that is immune, or on which no level finds its marking condition
  (the level is within \<open>qualityLevelMark\<close> and its defect is present), comes out with
  status \<open>Normal\<close>.
\<close>

theorem status_reset_before_cascade:
  assumes run: "applyQualityFilter c p lib e qs n = Inr (ok, e', qs', n')"
  shows "applyQualityFilter c p lib (e\<lparr>status := s\<rparr>) qs n = Inr (ok, e', qs', n')
     \<and> (immuneByProb p e \<or> immuneByEngines c p e \<or>
         (\<not> (qualityLevelMark p \<ge> 5 \<and> nrepsUsed e < repQuorum p)
          \<and> \<not> (qualityLevelMark p \<ge> 4 \<and> nrepsUsed e < repQuorum p \<and> nrepsUsed e = 1)
          \<and> \<not> (qualityLevelMark p \<ge> 3 \<and> nrepsUsed e < repQuorum p
                 \<and> hasSharedSequence c lib e = Inr False)
          \<and> \<not> (qualityLevelMark p \<ge> 2
                 \<and> isBadConflictingID c lib e (nrepsUsed e) (qualityPenalizeSingletons p)
                     = Inr True)
          \<and> \<not> (qualityLevelMark p \<ge> 1
                 \<and> fst (isImpure c e (nrepsUsed e) (qualityPenalizeSingletons p))))
         \<longrightarrow> status e' = ''Normal'')"
proof (intro conjI impI)
  show "applyQualityFilter c p lib (e\<lparr>status := s\<rparr>) qs n = Inr (ok, e', qs', n')"
    using run by (simp add: applyQualityFilter_def)
next
  let ?n = "nrepsUsed e" and ?pen = "qualityPenalizeSingletons p"
  let ?e0 = "e\<lparr>status := ''Normal''\<rparr>"
  let ?x0 = "\<lparr>qEntry = ?e0, qStats = qs, inquorate = False, singleton = False,
              unconfirmed = False, badConflictingID = False\<rparr>"
  assume hyp: "immuneByProb p e \<or> immuneByEngines c p e \<or>
         (\<not> (qualityLevelMark p \<ge> 5 \<and> ?n < repQuorum p)
          \<and> \<not> (qualityLevelMark p \<ge> 4 \<and> ?n < repQuorum p \<and> ?n = 1)
          \<and> \<not> (qualityLevelMark p \<ge> 3 \<and> ?n < repQuorum p
                 \<and> hasSharedSequence c lib e = Inr False)
          \<and> \<not> (qualityLevelMark p \<ge> 2 \<and> isBadConflictingID c lib e ?n ?pen = Inr True)
          \<and> \<not> (qualityLevelMark p \<ge> 1 \<and> fst (isImpure c e ?n ?pen)))"
  show "status e' = ''Normal''"
  proof (cases "immuneByProb p e \<or> immuneByEngines c p e")
    case True
    then show ?thesis using run
      by (cases "immuneByProb p e") (auto simp: applyQualityFilter_def checkImmune_def Let_def)
  next
    case False
    with hyp have nm5: "\<not> (qualityLevelMark p \<ge> 5 \<and> ?n < repQuorum p)"
      and nm4: "\<not> (qualityLevelMark p \<ge> 4 \<and> ?n < repQuorum p \<and> ?n = 1)"
      and nm3: "\<not> (qualityLevelMark p \<ge> 3 \<and> ?n < repQuorum p
                 \<and> hasSharedSequence c lib e = Inr False)"
      and nm2: "\<not> (qualityLevelMark p \<ge> 2 \<and> isBadConflictingID c lib e ?n ?pen = Inr True)"
      and nm1: "\<not> (qualityLevelMark p \<ge> 1 \<and> fst (isImpure c e ?n ?pen))"
      by blast+
    define J where "J = (\<lambda>x :: qfctx. qEntry x = ?e0 \<and> (inquorate x \<longrightarrow> ?n < repQuorum p))"
    define N where "N = (\<lambda>x :: qfctx. status (qEntry x) = ''Normal'')"
    from run obtain r x where
      chain: "andThen (andThen (andThen (andThen (andThen (andThen
                (checkImmune c p ?x0)
                (checkLevel5 p ?n))
                (checkLevel4 p ?n))
                (checkLevel3 c p lib))
                (checkLevel2 c p lib ?n))
                (checkLevel1 c p ?n))
                (enforcePeakQuorum p ?n) = Inr (r, x)"
      and e': "e' = qEntry x"
      by (auto simp: applyQualityFilter_def Let_def split: sum.splits)
    have "N x"
    proof (rule andThen_invariant [OF chain, where P = N])
      fix ra xa
      assume c1: "andThen (andThen (andThen (andThen (andThen
                (checkImmune c p ?x0)
                (checkLevel5 p ?n))
                (checkLevel4 p ?n))
                (checkLevel3 c p lib))
                (checkLevel2 c p lib ?n))
                (checkLevel1 c p ?n) = Inr (ra, xa)"
      show "N xa"
      proof (rule andThen_invariant [OF c1, where P = J])
        fix rb xb
        assume c2: "andThen (andThen (andThen (andThen
                (checkImmune c p ?x0)
                (checkLevel5 p ?n))
                (checkLevel4 p ?n))
                (checkLevel3 c p lib))
                (checkLevel2 c p lib ?n) = Inr (rb, xb)"
        show "J xb"
        proof (rule andThen_invariant [OF c2, where P = J])
          fix rc xc
          assume c3: "andThen (andThen (andThen
                (checkImmune c p ?x0)
                (checkLevel5 p ?n))
                (checkLevel4 p ?n))
                (checkLevel3 c p lib) = Inr (rc, xc)"
          show "J xc"
          proof (rule andThen_invariant [OF c3, where P = J])
            fix rd xd
            assume c4: "andThen (andThen
                (checkImmune c p ?x0)
                (checkLevel5 p ?n))
                (checkLevel4 p ?n) = Inr (rd, xd)"
            show "J xd"
            proof (rule andThen_invariant [OF c4, where P = J])
              fix re xe
              assume c5: "andThen (checkImmune c p ?x0) (checkLevel5 p ?n) = Inr (re, xe)"
              show "J xe"
              proof (rule andThen_invariant [OF c5, where P = J])
                fix rf xf
                assume "checkImmune c p ?x0 = Inr (rf, xf)"
                from checkImmune_cases [OF this] show "J xf" by (simp add: J_def)
              next
                fix y ry y'
                assume "J y" and "checkLevel5 p ?n y = Inr (ry, y')"
                with checkLevel5_unmarked [OF this(2) nm5] show "J y'" by (simp add: J_def)
              qed
            next
              fix y ry y'
              assume "J y" and l: "checkLevel4 p ?n y = Inr (ry, y')"
              with checkLevel4_unmarked [OF l] nm4 show "J y'" by (auto simp: J_def)
            qed
          next
            fix y ry y'
            assume "J y" and l: "checkLevel3 c p lib y = Inr (ry, y')"
            with checkLevel3_unmarked [OF l] nm3 show "J y'" by (auto simp: J_def)
          qed
        next
          fix y ry y'
          assume "J y" and l: "checkLevel2 c p lib ?n y = Inr (ry, y')"
          with checkLevel2_unmarked [OF l] nm2 show "J y'" by (auto simp: J_def)
        qed
      next
        fix y ry y'
        assume "J y" and l: "checkLevel1 c p ?n y = Inr (ry, y')"
        with checkLevel1_unmarked [OF l] nm1 show "N y'" by (auto simp: J_def N_def)
      next
        fix y assume "J y" then show "N y" by (simp add: J_def N_def)
      qed
    next
      fix y ry y'
      assume "N y" and "enforcePeakQuorum p ?n y = Inr (ry, y')"
      then show "N y'" by (auto simp: enforcePeakQuorum_def N_def)
    qed
    then show ?thesis using e' by (simp add: N_def)
  qed
qed


theorem status_reset_before_cascade_witness:
  "applyQualityFilter exCollab exParams None exSingleton zeroStats 0 =
     Inr (True, exSingleton\<lparr>status := ''Normal''\<rparr>, zeroStats, 1)
   \<and> applyQualityFilter exCollab exParams None (exSingleton\<lparr>status := ''Impure''\<rparr>)
       zeroStats 0 =
     Inr (True, exSingleton\<lparr>status := ''Normal''\<rparr>, zeroStats, 1)
   \<and> status exSingleton = ''Singleton''
   \<and> status (exSingleton\<lparr>status := ''Normal''\<rparr>) = ''Normal''"
proof -
  have run: "applyQualityFilter exCollab exParams None exSingleton zeroStats 0 =
     Inr (True, exSingleton\<lparr>status := ''Normal''\<rparr>, zeroStats, 1)"
    by (simp add: cascade_defs immuneByProb_def immuneByEngines_def repQuorum_def
        removeInquoratePeaks_def minNumRepWithPeak_def toUInt_def exParams_def
        exSingleton_def exPeaks_def)
  from status_reset_before_cascade [OF run, of "''Impure''"] run
  show ?thesis by (simp add: exSingleton_def)
qed

subsection \<open>The peak quorum\<close>
















subsection \<open>The reference library is never dereferenced while null\<close>

lemma conflictScan_no_null_lib:
  "conflictScan c e pep n pen es \<noteq> Inl NullSearchLib"
  by (induction es) (auto simp: Let_def split: option.splits)

lemma isBadConflictingID_null_lib:
  "isBadConflictingID c lib e n pen = Inl NullSearchLib \<Longrightarrow> lib = None"
  by (auto simp: isBadConflictingID_def conflictScan_no_null_lib split: option.splits)

lemma hasSharedSequence_null_lib:
  "hasSharedSequence c lib e = Inl NullSearchLib \<Longrightarrow> lib = None"
  by (auto simp: hasSharedSequence_def split: option.splits)

lemma andThen_Inl:
  "andThen r f = Inl err \<Longrightarrow> r = Inl err \<or> (\<exists>x. r = Inr (None, x) \<and> f x = Inl err)"
  by (auto simp: andThen_def split: sum.splits option.splits)

lemma checkLevel3_null_lib:
  "checkLevel3 c p lib x = Inl NullSearchLib \<Longrightarrow>
     lib = None \<and> (qualityLevelRemove p \<ge> 3 \<or> qualityLevelMark p \<ge> 3)"
  by (auto simp: checkLevel3_def Let_def dest: hasSharedSequence_null_lib
      split: if_splits sum.splits bool.splits)

lemma checkLevel2_null_lib:
  "checkLevel2 c p lib n x = Inl NullSearchLib \<Longrightarrow>
     lib = None \<and> (qualityLevelRemove p \<ge> 2 \<or> qualityLevelMark p \<ge> 2)"
  by (auto simp: checkLevel2_def Let_def dest: isBadConflictingID_null_lib
      split: if_splits sum.splits bool.splits)

lemma cascade_blocks_no_error:
  "checkImmune c p x \<noteq> Inl err"
  "checkLevel5 p n x \<noteq> Inl err"
  "checkLevel4 p n x \<noteq> Inl err"
  "checkLevel1 c p n x \<noteq> Inl err"
  "enforcePeakQuorum p n x \<noteq> Inl err"
  by (auto simp: checkImmune_def checkLevel5_def checkLevel4_def checkLevel1_def
      enforcePeakQuorum_def Let_def split: prod.splits bool.splits)

text \<open>
  A call of the cascade dereferences the null reference library only when a level from 2
  upwards is marking or removing.
\<close>

lemma applyQualityFilter_null_lib:
  assumes "applyQualityFilter c p lib e qs n = Inl NullSearchLib"
  shows "lib = None \<and> (qualityLevelRemove p \<ge> 2 \<or> qualityLevelMark p \<ge> 2)"
proof -
  let ?n = "nrepsUsed e"
  let ?x0 = "\<lparr>qEntry = e\<lparr>status := ''Normal''\<rparr>, qStats = qs, inquorate = False,
              singleton = False, unconfirmed = False, badConflictingID = False\<rparr>"
  from assms have
    "andThen (andThen (andThen (andThen (andThen (andThen
        (checkImmune c p ?x0)
        (checkLevel5 p ?n))
        (checkLevel4 p ?n))
        (checkLevel3 c p lib))
        (checkLevel2 c p lib ?n))
        (checkLevel1 c p ?n))
        (enforcePeakQuorum p ?n) = Inl NullSearchLib"
    by (auto simp: applyQualityFilter_def Let_def split: sum.splits)
  then have
    "andThen (andThen (andThen (andThen
        (checkImmune c p ?x0)
        (checkLevel5 p ?n))
        (checkLevel4 p ?n))
        (checkLevel3 c p lib))
        (checkLevel2 c p lib ?n) = Inl NullSearchLib"
    by (auto dest!: andThen_Inl simp: cascade_blocks_no_error)
  then consider x where "checkLevel2 c p lib ?n x = Inl NullSearchLib"
    | "andThen (andThen (andThen
        (checkImmune c p ?x0)
        (checkLevel5 p ?n))
        (checkLevel4 p ?n))
        (checkLevel3 c p lib) = Inl NullSearchLib"
    by (auto dest: andThen_Inl)
  then show ?thesis
  proof cases
    case 1
    then show ?thesis by (auto dest: checkLevel2_null_lib)
  next
    case 2
    then obtain x where "checkLevel3 c p lib x = Inl NullSearchLib"
      by (auto dest!: andThen_Inl simp: cascade_blocks_no_error)
    then show ?thesis by (auto dest: checkLevel3_null_lib)
  qed
qed

lemma qualityFilterLoop_null_lib:
  "qualityFilterLoop c p es qs st = Inl NullSearchLib \<Longrightarrow>
     m_QFSearchLib st = None \<and> (qualityLevelRemove p \<ge> 2 \<or> qualityLevelMark p \<ge> 2)"
proof (induction es arbitrary: qs st)
  case Nil
  then show ?case by simp
next
  case (Cons e es)
  show ?case
  proof (cases "passAllFilters c p st e")
    case False
    then show ?thesis using Cons by simp
  next
    case True
    show ?thesis
    proof (cases "applyQualityFilter c p (m_QFSearchLib st) e qs (m_count st)")
      case (Inl err)
      then show ?thesis using Cons.prems True
        by (auto dest: applyQualityFilter_null_lib)
    next
      case (Inr res)
      obtain ok e' qs' n' where res: "res = (ok, e', qs', n')" by (cases res)
      show ?thesis
      proof (cases ok)
        case True
        with Cons.prems \<open>passAllFilters c p st e\<close> Inr res
        have "qualityFilterLoop c p es qs'
                (insertEntry (processEntry c e') (st\<lparr>m_count := n'\<rparr>)) = Inl NullSearchLib"
          by simp
        from Cons.IH [OF this] show ?thesis by (simp add: insertEntry_def)
      next
        case False
        with Cons.prems \<open>passAllFilters c p st e\<close> Inr res
        have "qualityFilterLoop c p es qs' (st\<lparr>m_count := n'\<rparr>) = Inl NullSearchLib"
          by simp
        from Cons.IH [OF this] show ?thesis by simp
      qed
    qed
  qed
qed

text \<open>
  Claim C10. No quality-filter run, whatever its parameters, its input files and the state
  of the importer it starts in, dereferences the reference library while the pointer is
  null: the run constructs the library exactly when a level from 2 upwards is marking or
  removing, and these are the only configurations in which the checks of levels 3 and 2
  reach it.
\<close>

theorem reference_library_never_null_when_dereferenced:
  "doQualityFilter c p files st \<noteq> Inl NullSearchLib"
proof
  assume run: "doQualityFilter c p files st = Inl NullSearchLib"
  let ?st2 = "openSplibs p True True True True files
                (st\<lparr>m_preamble := m_preamble st @ [descrStr c p (map fst files)],
                    g_log := g_log st @ [LogMsg ''CREATE'' (descrStr c p (map fst files))]\<rparr>)"
  let ?st4 = "if qualityLevelMark p \<ge> 2 \<or> qualityLevelRemove p \<ge> 2
              then (writePreamble ?st2)\<lparr>m_QFSearchLib := Some (openSearchLib (hd files))\<rparr>
              else writePreamble ?st2"
  from run obtain mz where "qualityFilterLoop c p mz zeroStats ?st4 = Inl NullSearchLib"
    by (auto simp: doQualityFilter_def Let_def
        split: if_splits list.splits option.splits sum.splits)
  from qualityFilterLoop_null_lib [OF this] show False
    by (auto split: if_splits)
qed

text \<open>
  The guard is needed: a cascade that marks at level 3 and is handed no reference library
  fails on the singleton \<open>exSingleton\<close>.
\<close>

lemma cascade_without_reference_library_fails:
  "applyQualityFilter exCollab (exParams\<lparr>qualityLevelMark := 3\<rparr>) None exSingleton zeroStats 0
     = Inl NullSearchLib"
  by (simp add: ex_defs qf_eval_defs)

section \<open>Conflicting configurations\<close>

lemma logError_shape:
  "\<exists>tag' msg'. logError tag msg st = st\<lparr>g_log := g_log st @ [LogError tag' msg']\<rparr>"
  unfolding logError_def by blast

text \<open>
  C8. A run whose configuration is conflicting, that is, whose combine action is
  \<open>SUBTRACT_HOMOLOGS\<close> while a build action is given, or whose build action is one of
  \<open>QUALITY_FILTER\<close>, \<open>DECOY\<close>, \<open>SORT_BY_NREPS\<close>, \<open>USER_SPECIFIED_MODS\<close> and
  \<open>SIMILARITY_CLUSTERING\<close> while more than one input file is given, logs one error and
  returns: the state it leaves is the state it started in with the error appended to the
  log, so that neither a preamble nor an entry is written.
\<close>

theorem conflicting_configuration_logs_error_and_writes_nothing:
  assumes "(combineAction p = ''SUBTRACT_HOMOLOGS'' \<and> buildAction p \<noteq> [])
           \<or> (buildAction p \<in> {''QUALITY_FILTER'', ''DECOY'', ''SORT_BY_NREPS'',
                                ''USER_SPECIFIED_MODS'', ''SIMILARITY_CLUSTERING''}
                \<and> length files > 1)"
  shows "\<exists>tag msg. importSplibs b c p files st
                     = Inr (st\<lparr>g_log := g_log st @ [LogError tag msg]\<rparr>)"
proof (cases "combineAction p = ''SUBTRACT_HOMOLOGS'' \<and> buildAction p \<noteq> []")
  case True
  then show ?thesis
    by (simp add: importSplibs_def logError_shape)
next
  case False
  with assms have ba: "buildAction p \<in> {''QUALITY_FILTER'', ''DECOY'', ''SORT_BY_NREPS'',
      ''USER_SPECIFIED_MODS'', ''SIMILARITY_CLUSTERING''}" and len: "length files \<noteq> 1"
    by auto
  from ba have ne: "buildAction p \<noteq> []" by auto
  with False have nsh: "combineAction p \<noteq> ''SUBTRACT_HOMOLOGS''" by simp
  from ba consider "buildAction p = ''QUALITY_FILTER''" | "buildAction p = ''DECOY''"
    | "buildAction p = ''SORT_BY_NREPS''" | "buildAction p = ''USER_SPECIFIED_MODS''"
    | "buildAction p = ''SIMILARITY_CLUSTERING''" by auto
  then show ?thesis
  proof cases
    case 1
    with nsh len show ?thesis
      by (simp add: importSplibs_def doQualityFilter_def logError_shape)
  next
    case 2
    with nsh len show ?thesis
      by (simp add: importSplibs_def doGenerateDecoy_def logError_shape)
  next
    case 3
    with nsh len show ?thesis
      by (simp add: importSplibs_def doSortByNreps_def logError_shape)
  next
    case 4
    with nsh len show ?thesis
      by (simp add: importSplibs_def doUserSpecifiedModifications_def logError_shape)
  next
    case 5
    with nsh len show ?thesis
      by (simp add: importSplibs_def doSimilarityClustering_def logError_shape)
  qed
qed

text \<open>
  The theorem at a concrete run: decoy generation asked of two input files.
\<close>

theorem conflicting_configuration_witness:
  "((combineAction (exParams\<lparr>buildAction := ''DECOY''\<rparr>) = ''SUBTRACT_HOMOLOGS''
       \<and> buildAction (exParams\<lparr>buildAction := ''DECOY''\<rparr>) \<noteq> [])
     \<or> (buildAction (exParams\<lparr>buildAction := ''DECOY''\<rparr>)
           \<in> {''QUALITY_FILTER'', ''DECOY'', ''SORT_BY_NREPS'', ''USER_SPECIFIED_MODS'',
               ''SIMILARITY_CLUSTERING''}
         \<and> length [(''a.splib'', Some exLib), (''b.splib'', Some exLibOne)] > 1))
   \<and> (\<exists>tag msg.
         importSplibs exBodies exCollab (exParams\<lparr>buildAction := ''DECOY''\<rparr>)
           [(''a.splib'', Some exLib), (''b.splib'', Some exLibOne)] (newImporter None)
         = Inr ((newImporter None)
                  \<lparr>g_log := g_log (newImporter None) @ [LogError tag msg]\<rparr>))
   \<and> (case importSplibs exBodies exCollab (exParams\<lparr>buildAction := ''DECOY''\<rparr>)
              [(''a.splib'', Some exLib), (''b.splib'', Some exLibOne)] (newImporter None) of
         Inl err \<Rightarrow> False
       | Inr st \<Rightarrow> libPreamble st = None \<and> libEntries st = [] \<and> length (g_log st) = 1)"
proof -
  have h: "(combineAction (exParams\<lparr>buildAction := ''DECOY''\<rparr>) = ''SUBTRACT_HOMOLOGS''
       \<and> buildAction (exParams\<lparr>buildAction := ''DECOY''\<rparr>) \<noteq> [])
     \<or> (buildAction (exParams\<lparr>buildAction := ''DECOY''\<rparr>)
           \<in> {''QUALITY_FILTER'', ''DECOY'', ''SORT_BY_NREPS'', ''USER_SPECIFIED_MODS'',
               ''SIMILARITY_CLUSTERING''}
         \<and> length [(''a.splib'', Some exLib), (''b.splib'', Some exLibOne)] > 1)"
    by simp
  from conflicting_configuration_logs_error_and_writes_nothing [OF h]
  obtain tag msg where r:
    "importSplibs exBodies exCollab (exParams\<lparr>buildAction := ''DECOY''\<rparr>)
       [(''a.splib'', Some exLib), (''b.splib'', Some exLibOne)] (newImporter None)
     = Inr ((newImporter None)\<lparr>g_log := g_log (newImporter None) @ [LogError tag msg]\<rparr>)"
    by blast
  have "libPreamble (newImporter None) = None \<and> libEntries (newImporter None) = []
        \<and> g_log (newImporter None) = []"
    by (simp add: newImporter_def)
  with h r show ?thesis by auto
qed

section \<open>Opening the inputs and inserting entries\<close>

lemma openOneSplib_appends:
  "\<exists>x. m_pepIndices (openOneSplib p om op cu rf st f) = m_pepIndices st @ [x]"
  by (cases f) (auto simp: openOneSplib_def logError_def addSequencesForRefresh_def Let_def
      split: option.splits)

lemma openOneSplib_output:
  "libEntries (openOneSplib p om op cu rf st f) = libEntries st
   \<and> libPreamble (openOneSplib p om op cu rf st f) = libPreamble st
   \<and> m_singletonPeptideIons (openOneSplib p om op cu rf st f) = m_singletonPeptideIons st
   \<and> m_denoiser (openOneSplib p om op cu rf st f) = m_denoiser st"
  by (cases f) (auto simp: openOneSplib_def logError_def addSequencesForRefresh_def Let_def
      split: option.splits)

lemma foldl_openOneSplib_appends:
  "\<exists>xs. m_pepIndices (foldl (openOneSplib p om op cu rf) st fs) = m_pepIndices st @ xs"
proof (induction fs arbitrary: st)
  case Nil
  show ?case by simp
next
  case (Cons f fs)
  from openOneSplib_appends obtain x where
    x: "m_pepIndices (openOneSplib p om op cu rf st f) = m_pepIndices st @ [x]" by blast
  from Cons.IH [of "openOneSplib p om op cu rf st f"] x show ?case by auto
qed

lemma foldl_openOneSplib_output:
  "libEntries (foldl (openOneSplib p om op cu rf) st fs) = libEntries st
   \<and> libPreamble (foldl (openOneSplib p om op cu rf) st fs) = libPreamble st
   \<and> m_singletonPeptideIons (foldl (openOneSplib p om op cu rf) st fs)
       = m_singletonPeptideIons st
   \<and> m_denoiser (foldl (openOneSplib p om op cu rf) st fs) = m_denoiser st"
  by (induction fs arbitrary: st) (simp_all add: openOneSplib_output)

lemma openOneSplib_unreadable:
  "m_pepIndices (openOneSplib p om op cu rf st (name, None)) = m_pepIndices st @ [None]"
  by (simp add: openOneSplib_def logError_def)

lemma openSplibs_first_unreadable:
  assumes "m_splibFins st = []" and "m_pepIndices st = []"
  shows "\<exists>xs. m_pepIndices (openSplibs p om op cu rf ((name, None) # rest) st) = None # xs"
proof -
  from foldl_openOneSplib_appends
  obtain xs where "m_pepIndices (foldl (openOneSplib p om op cu rf)
                      (openOneSplib p om op cu rf st (name, None)) rest)
                   = m_pepIndices (openOneSplib p om op cu rf st (name, None)) @ xs"
    by blast
  with assms show ?thesis
    by (simp add: openSplibs_def openOneSplib_unreadable)
qed

lemma openSplibs_output:
  "libEntries (openSplibs p om op cu rf files st) = libEntries st
   \<and> libPreamble (openSplibs p om op cu rf files st) = libPreamble st"
  by (simp add: openSplibs_def foldl_openOneSplib_output)

lemma refresh_keeps:
  "m_pepIndices (refresh c p st) = m_pepIndices st
   \<and> libEntries (refresh c p st) = libEntries st
   \<and> libPreamble (refresh c p st) = libPreamble st"
  by (simp add: refresh_def split: option.splits)




lemma passAllFilters_ppMappings:
  "m_ppMappings st = m_ppMappings st' \<Longrightarrow> passAllFilters c p st e = passAllFilters c p st' e"
  by (simp add: passAllFilters_def)

lemma insertIfPassing_fields:
  "m_ppMappings (insertIfPassing c p st e) = m_ppMappings st
   \<and> libPreamble (insertIfPassing c p st e) = libPreamble st
   \<and> libEntries (insertIfPassing c p st e)
       = libEntries st @ (if passAllFilters c p st e then [processEntry c e] else [])"
  by (simp add: insertIfPassing_def insertEntry_def)


lemmas import_eval_defs = importSplibs_def doSubtractHomologs_def openSplibs_def
  openOneSplib_def writePreamble_def newImporter_def logError_def insertIfPassing_def
  insertEntry_def passAllFilters_def mzRetrieve_def isUniqueLibrary_def includeIon_def
  libIsInIndex_def doBuildAction_def idxRetrieve_def isInIndex_def refresh_def Let_def


section \<open>An unreadable first input\<close>

text \<open>
  C3. Under UNION, APPEND, INTERSECT or SUBTRACT, with a build action that does not leave
  the combining path, a run whose first input file cannot be opened returns without
  inserting an entry, but only after it has written the preamble of the output library.
\<close>

theorem unreadable_first_input_writes_preamble_only:
  assumes "combineAction p \<in> {''UNION'', ''APPEND'', ''INTERSECT'', ''SUBTRACT''}"
    and "buildAction p \<in> {[], ''BEST_REPLICATE'', ''CONSENSUS''}"
  shows "\<exists>st. importSplibs b c p ((name, None) # rest) (newImporter d) = Inr st
              \<and> libPreamble st = Some (m_preamble st) \<and> libPreamble st \<noteq> None
              \<and> libEntries st = []"
proof -
  let ?files = "(name, None) # rest"
  let ?st1 = "(newImporter d)\<lparr>m_preamble := m_preamble (newImporter d) @ [descrStr c p (map fst ?files)],
                g_log := g_log (newImporter d) @ [LogMsg ''CREATE'' (descrStr c p (map fst ?files))]\<rparr>"
  let ?st2 = "openSplibs p False True False True ?files ?st1"
  let ?st3 = "writePreamble ?st2"
  let ?st4 = "if refreshDatabase p \<noteq> [] then refresh c p ?st3 else ?st3"
  have "m_splibFins ?st1 = []" "m_pepIndices ?st1 = []"
    by (simp_all add: newImporter_def)
  from openSplibs_first_unreadable [OF this]
  obtain xs where xs: "m_pepIndices ?st2 = None # xs" by blast
  have pi: "m_pepIndices ?st4 = None # xs"
    using xs by (simp add: refresh_keeps writePreamble_def)
  have le: "libEntries ?st4 = []"
    by (simp add: refresh_keeps writePreamble_def openSplibs_output newImporter_def)
  have lp: "libPreamble ?st4 = Some (m_preamble ?st4)"
    by (simp add: refresh_def writePreamble_def split: option.splits)
  from assms have ca: "combineAction p \<noteq> ''SUBTRACT_HOMOLOGS''" by auto
  from assms(2) have ba: "buildAction p \<noteq> ''QUALITY_FILTER''" "buildAction p \<noteq> ''DECOY''"
    "buildAction p \<noteq> ''SORT_BY_NREPS''" "buildAction p \<noteq> ''USER_SPECIFIED_MODS''"
    "buildAction p \<noteq> ''SIMILARITY_CLUSTERING''" by auto
  have "importSplibs b c p ?files (newImporter d) = Inr ?st4"
    unfolding importSplibs_def Let_def
    by (simp only: ca ba pi if_False list.case option.case simp_thms list.distinct)
  with le lp show ?thesis by simp
qed

text \<open>
  The theorem at a concrete run: UNION of an unreadable file and a readable one. The
  output gets a preamble of two lines, the description of the run and the preamble of
  the second file, and no entry.
\<close>

theorem unreadable_first_input_witness:
  "combineAction exParams \<in> {''UNION'', ''APPEND'', ''INTERSECT'', ''SUBTRACT''}
   \<and> buildAction exParams \<in> {[], ''BEST_REPLICATE'', ''CONSENSUS''}
   \<and> (case importSplibs exBodies exCollab exParams
              [(''a.splib'', None), (''b.splib'', Some exLibOne)] (newImporter None) of
         Inl err \<Rightarrow> False
       | Inr st \<Rightarrow> libPreamble st = Some [''Create'', ''> one''] \<and> libEntries st = [])"
proof -
  have h1: "combineAction exParams \<in> {''UNION'', ''APPEND'', ''INTERSECT'', ''SUBTRACT''}"
    by (simp add: exParams_def)
  have h2: "buildAction exParams \<in> {[], ''BEST_REPLICATE'', ''CONSENSUS''}"
    by (simp add: exParams_def)
  from unreadable_first_input_writes_preamble_only [OF h1 h2]
  obtain st where st:
    "importSplibs exBodies exCollab exParams
       [(''a.splib'', None), (''b.splib'', Some exLibOne)] (newImporter None) = Inr st"
    "libEntries st = []"
    by blast
  have "importSplibs exBodies exCollab exParams
          [(''a.splib'', None), (''b.splib'', Some exLibOne)] (newImporter None)
        = Inr st \<Longrightarrow> libPreamble st = Some [''Create'', ''> one'']"
    by (auto simp: importSplibs_def exParams_def exCollab_def exLibOne_def newImporter_def
        openSplibs_def openOneSplib_def logError_def writePreamble_def Let_def)
  with st h1 h2 show ?thesis by simp
qed

section \<open>Similarity clustering\<close>







section \<open>Subtracting homologs\<close>

lemma findHomologAmong_None:
  "peptidePtr entry = Some pep \<Longrightarrow>
   (findHomologAmong c pep (charge entry) es = None)
     = (\<not> list_ex (identicalOrHomologous c entry) es)"
  by (induction es) (auto simp: identicalOrHomologous_def split: option.splits)

lemma hasHomologElsewhere_simps:
  "hasHomologElsewhere c [] entry = False"
  "hasHomologElsewhere c (None # others) entry = hasHomologElsewhere c others entry"
  "hasHomologElsewhere c (Some idx # others) entry
     = (list_ex (identicalOrHomologous c entry)
          (mzRetrieve idx (precursorMz entry - 4.5) (precursorMz entry + 4.5))
        \<or> hasHomologElsewhere c others entry)"
  by (simp_all add: hasHomologElsewhere_def)

lemma findHomolog_None:
  "peptidePtr entry = Some pep \<Longrightarrow>
   (findHomolog c pep (charge entry) (precursorMz entry) others = None)
     = (\<not> hasHomologElsewhere c others entry)"
proof (induction others)
  case Nil
  show ?case by (simp add: hasHomologElsewhere_simps)
next
  case (Cons i others)
  show ?case
  proof (cases i)
    case None
    with Cons show ?thesis by (simp add: hasHomologElsewhere_simps)
  next
    case (Some idx)
    with Cons findHomologAmong_None [of entry pep c
        "mzRetrieve idx (precursorMz entry - 4.5) (precursorMz entry + 4.5)"]
    show ?thesis
      by (auto simp: hasHomologElsewhere_simps split: option.splits)
  qed
qed

lemma subtractHomologsLoop_entries:
  "m_ppMappings (subtractHomologsLoop c p others es st) = m_ppMappings st
   \<and> libPreamble (subtractHomologsLoop c p others es st) = libPreamble st
   \<and> libEntries (subtractHomologsLoop c p others es st)
       = libEntries st @ map (processEntry c)
           (filter (\<lambda>e. peptidePtr e \<noteq> None \<and> \<not> hasHomologElsewhere c others e
                         \<and> passAllFilters c p st e) es)"
proof (induction es arbitrary: st)
  case Nil
  show ?case by simp
next
  case (Cons entry es)
  show ?case
  proof (cases "peptidePtr entry")
    case None
    with Cons [of st] show ?thesis by simp
  next
    case (Some pep)
    note fh = findHomolog_None [OF Some, of c others]
    show ?thesis
    proof (cases "hasHomologElsewhere c others entry")
      case True
      with fh obtain en where
        en: "findHomolog c pep (charge entry) (precursorMz entry) others = Some en"
        by auto
      let ?st = "st\<lparr>g_log := g_log st @ [LogMsg ''CREATE'' (homologLogLine c entry en)]\<rparr>"
      have pp: "passAllFilters c p ?st = passAllFilters c p st"
        by (rule ext) (simp add: passAllFilters_def)
      from Cons [of ?st] Some en True pp show ?thesis by simp
    next
      case False
      with fh have
        nf: "findHomolog c pep (charge entry) (precursorMz entry) others = None"
        by simp
      let ?st = "insertIfPassing c p (st\<lparr>m_count := m_count st + 1\<rparr>) entry"
      have pc: "passAllFilters c p (st\<lparr>m_count := m_count st + 1\<rparr>) = passAllFilters c p st"
        by (rule ext) (simp add: passAllFilters_def)
      have pp: "passAllFilters c p ?st = passAllFilters c p st"
        by (rule ext) (simp add: passAllFilters_def insertIfPassing_def insertEntry_def)
      from Cons [of ?st] Some nf False pp pc show ?thesis
        by (simp add: insertIfPassing_fields)
    qed
  qed
qed


lemma openOneSplib_mzIndices:
  "m_mzIndices (openOneSplib p True op cu rf st f) = m_mzIndices st @ [map_option mzidx (snd f)]"
  by (cases f) (auto simp: openOneSplib_def logError_def addSequencesForRefresh_def Let_def
      split: option.splits)

lemma foldl_openOneSplib_mzIndices:
  "m_mzIndices (foldl (openOneSplib p True op cu rf) st fs)
     = m_mzIndices st @ map (\<lambda>f. map_option mzidx (snd f)) fs"
  by (induction fs arbitrary: st) (simp_all add: openOneSplib_mzIndices)

lemma openSplibs_mzIndices:
  "m_splibFins st = [] \<Longrightarrow>
   m_mzIndices (openSplibs p True op cu rf files st)
     = m_mzIndices st @ map (\<lambda>f. map_option mzidx (snd f)) files"
  by (simp add: openSplibs_def foldl_openOneSplib_mzIndices)

text \<open>
  C7. Under \<open>SUBTRACT_HOMOLOGS\<close> the output holds, in the order of the mass index of
  input 1, the processed entries of input 1 that have a peptide, have no identical or
  homologous peptide within 4.5 m/z in any other input, and pass the filters. An entry of
  input 1 with a peptide is thus left out for a homolog exactly when some other input holds
  one; an entry without a peptide is left out whatever the other inputs hold.
\<close>

theorem subtract_homologs_keeps_identified_entries_without_homolog:
  assumes "combineAction p = ''SUBTRACT_HOMOLOGS''" and "buildAction p = []"
  shows "\<exists>st. importSplibs b c p ((name, Some A) # rest) (newImporter d) = Inr st
           \<and> libEntries st
               = map (processEntry c)
                   (filter (\<lambda>e. peptidePtr e \<noteq> None
                                \<and> \<not> hasHomologElsewhere c
                                       (map (\<lambda>f. map_option mzidx (snd f)) rest) e
                                \<and> passAllFilters c p st e)
                      (mzidx A))"
proof -
  let ?files = "(name, Some A) # rest"
  let ?others = "map (\<lambda>f. map_option mzidx (snd f)) rest"
  let ?st1 = "(newImporter d)\<lparr>m_preamble := m_preamble (newImporter d) @ [descrStr c p (map fst ?files)],
                g_log := g_log (newImporter d) @ [LogMsg ''CREATE'' (descrStr c p (map fst ?files))]\<rparr>"
  let ?st2 = "writePreamble (openSplibs p True False False True ?files ?st1)"
  let ?st = "subtractHomologsLoop c p ?others (mzidx A) ?st2"
  have e1: "m_splibFins ?st1 = []" "m_mzIndices ?st1 = []"
    by (simp_all add: newImporter_def)
  have mz: "m_mzIndices ?st2 = Some (mzidx A) # ?others"
    using openSplibs_mzIndices [OF e1(1), of p False False True ?files] e1(2)
    by (simp add: writePreamble_def)
  have le: "libEntries ?st2 = []"
    by (simp add: writePreamble_def openSplibs_output newImporter_def)
  have ds: "doSubtractHomologs c p ?files ?st1 = Inr ?st"
    unfolding doSubtractHomologs_def Let_def
    by (simp only: mz list.case option.case)
  have run: "importSplibs b c p ?files (newImporter d) = Inr ?st"
    unfolding importSplibs_def Let_def
    by (simp only: assms ds if_True if_False simp_thms list.distinct
        list.inject char.inject)
  have pp: "passAllFilters c p ?st = passAllFilters c p ?st2"
    by (rule ext) (rule passAllFilters_ppMappings, simp add: subtractHomologsLoop_entries)
  have "libEntries ?st
          = map (processEntry c)
              (filter (\<lambda>e. peptidePtr e \<noteq> None \<and> \<not> hasHomologElsewhere c ?others e
                           \<and> passAllFilters c p ?st e) (mzidx A))"
    by (simp only: pp subtractHomologsLoop_entries le append_Nil)
  with run show ?thesis by blast
qed

lemma exLib_minus_exLibOne:
  "case importSplibs exBodies exCollab (exParams\<lparr>combineAction := ''SUBTRACT_HOMOLOGS''\<rparr>)
          [(''a.splib'', Some exLib), (''b.splib'', Some exLibOne)] (newImporter None) of
     Inl err \<Rightarrow> False
   | Inr st \<Rightarrow> libEntries st = [exPair]"
  by (simp add: import_eval_defs exLibOne_def ex_defs)

text \<open>
  The theorem at a concrete run: \<open>exLib\<close> less the homologs in \<open>exLibOne\<close>. The two entries
  of charge 2 have their peptide in \<open>exLibOne\<close> at the same precursor m/z; the entry of
  charge 3, 100 m/z away, stays.
\<close>

theorem subtract_homologs_witness:
  "combineAction (exParams\<lparr>combineAction := ''SUBTRACT_HOMOLOGS''\<rparr>) = ''SUBTRACT_HOMOLOGS''
   \<and> buildAction (exParams\<lparr>combineAction := ''SUBTRACT_HOMOLOGS''\<rparr>) = []
   \<and> (case importSplibs exBodies exCollab (exParams\<lparr>combineAction := ''SUBTRACT_HOMOLOGS''\<rparr>)
              [(''a.splib'', Some exLib), (''b.splib'', Some exLibOne)] (newImporter None) of
         Inl err \<Rightarrow> False
       | Inr st \<Rightarrow>
           libEntries st = [exPair]
           \<and> libEntries st
               = map (processEntry exCollab)
                   (filter (\<lambda>e. peptidePtr e \<noteq> None
                                \<and> \<not> hasHomologElsewhere exCollab
                                       (map (\<lambda>f. map_option mzidx (snd f))
                                          [(''b.splib'', Some exLibOne)]) e
                                \<and> passAllFilters exCollab
                                    (exParams\<lparr>combineAction := ''SUBTRACT_HOMOLOGS''\<rparr>) st e)
                      (mzidx exLib)))"
proof -
  have h1: "combineAction (exParams\<lparr>combineAction := ''SUBTRACT_HOMOLOGS''\<rparr>)
              = ''SUBTRACT_HOMOLOGS''"
    by simp
  have h2: "buildAction (exParams\<lparr>combineAction := ''SUBTRACT_HOMOLOGS''\<rparr>) = []"
    by (simp add: exParams_def)
  from subtract_homologs_keeps_identified_entries_without_homolog [OF h1 h2]
  obtain st where st:
    "importSplibs exBodies exCollab (exParams\<lparr>combineAction := ''SUBTRACT_HOMOLOGS''\<rparr>)
       [(''a.splib'', Some exLib), (''b.splib'', Some exLibOne)] (newImporter None) = Inr st"
    "libEntries st
       = map (processEntry exCollab)
           (filter (\<lambda>e. peptidePtr e \<noteq> None
                        \<and> \<not> hasHomologElsewhere exCollab
                               (map (\<lambda>f. map_option mzidx (snd f))
                                  [(''b.splib'', Some exLibOne)]) e
                        \<and> passAllFilters exCollab
                            (exParams\<lparr>combineAction := ''SUBTRACT_HOMOLOGS''\<rparr>) st e)
              (mzidx exLib))"
    by blast
  from exLib_minus_exLibOne st(1) have "libEntries st = [exPair]" by simp
  with st h1 h2 show ?thesis by simp
qed

text \<open>
  The claim as it is written fails on an entry without a peptide: the only entry of
  \<open>exLibU\<close> is left out of the output, which is empty, although it passes the filters and
  the other input holds no entry at all within 4.5 m/z of its precursor.
\<close>

theorem subtract_homologs_drops_entry_without_peptide:
  "(case importSplibs exBodies exCollab (exParams\<lparr>combineAction := ''SUBTRACT_HOMOLOGS''\<rparr>)
           [(''u.splib'', Some exLibU), (''far.splib'', Some exLibFar)] (newImporter None) of
      Inl err \<Rightarrow> False
    | Inr st \<Rightarrow> libEntries st = [] \<and> passAllFilters exCollab exParams st exUnidentified)
   \<and> mzidx exLibU = [exUnidentified]
   \<and> mzRetrieve (mzidx exLibFar) (precursorMz exUnidentified - 4.5)
       (precursorMz exUnidentified + 4.5) = []"
  by (simp add: import_eval_defs exLibU_def exLibFar_def exFar_def exUnidentified_def ex_defs)

section \<open>The union of a library with itself\<close>


















end
